theory Spec2Isabelle
  imports Main "HOL-Library.AList"
begin

section \<open>Delivery accounting (feed-handler, delivery-record.service.ts)\<close>

text \<open>
  The enum \<open>ArticleDeliveryStatus\<close> is imported from \<open>../shared\<close>; the service names its
  members \<open>Sent\<close>, \<open>Failed\<close> and \<open>Rejected\<close>, and the last branch of \<open>store\<close> shows that
  other members exist. They are kept apart as \<open>OtherStatus\<close>.
\<close>

datatype ArticleDeliveryStatus = Sent | Failed | Rejected | OtherStatus string

text \<open>
  A row of the delivery-record table with the columns the service reads and writes.
  Times are JavaScript \<open>Date\<close> values: milliseconds since the epoch.
\<close>

record DeliveryRecord =
  feed_id :: string
  status :: ArticleDeliveryStatus
  error_code :: "string option"
  internal_message :: "string option"
  created_at :: int

text \<open>
  \<open>countDeliveriesInPastTimeframe({feedId}, secondsInPast)\<close>: the repository's \<open>count\<close> with
  the filter \<open>feed_id = feedId\<close>, \<open>status $in [Sent, Rejected]\<close> and
  \<open>created_at $gte dayjs().subtract(secondsInPast, "second")\<close>. The table and the clock
  reading \<open>now\<close> of \<open>dayjs()\<close> are explicit arguments.
\<close>

definition matchesCountQuery :: "int \<Rightarrow> string \<Rightarrow> int \<Rightarrow> DeliveryRecord \<Rightarrow> bool" where
  "matchesCountQuery now feedId secondsInPast r =
     (feed_id r = feedId \<and> status r \<in> set [Sent, Rejected]
      \<and> now - secondsInPast * 1000 \<le> created_at r)"

definition countDeliveriesInPastTimeframe ::
  "DeliveryRecord list \<Rightarrow> int \<Rightarrow> string \<Rightarrow> int \<Rightarrow> nat" where
  "countDeliveriesInPastTimeframe recordRepo now feedId secondsInPast =
     length (filter (matchesCountQuery now feedId secondsInPast) recordRepo)"

text \<open>
  The count as the specification words it: status Sent or Rejected and creation time
  within the closed window \<open>[now - windowSeconds, now]\<close>.
\<close>

definition countRecent_spec :: "DeliveryRecord list \<Rightarrow> int \<Rightarrow> string \<Rightarrow> int \<Rightarrow> nat" where
  "countRecent_spec records now subscriptionId windowSeconds =
     length (filter (\<lambda>r. feed_id r = subscriptionId
                          \<and> (status r = Sent \<or> status r = Rejected)
                          \<and> now - windowSeconds * 1000 \<le> created_at r
                          \<and> created_at r \<le> now) records)"

text \<open>The records of a feed that are dated after the clock reading of the query.\<close>

definition datedAfter :: "DeliveryRecord list \<Rightarrow> int \<Rightarrow> string \<Rightarrow> int \<Rightarrow> nat" where
  "datedAfter records now feedId secondsInPast =
     length (filter (\<lambda>r. matchesCountQuery now feedId secondsInPast r \<and> now < created_at r) records)"

section \<open>JavaScript values\<close>

text \<open>
  The values the connection service passes through without looking inside: filter
  expressions, embed lists, the values of a \<open>details\<close> patch. An object is the list of its
  entries, as \<open>Object.entries\<close> gives them: a key whose value is \<open>undefined\<close> is an entry
  like any other, and a key the object does not have is no entry. An optional argument or
  field is an \<open>option\<close>.
\<close>

datatype jsval =
    JUndefined
  | JNull
  | JBool bool
  | JNum int
  | JStr string
  | JArr "jsval list"
  | JObj "(string \<times> jsval) list"

text \<open>Truthiness, as \<open>if (v)\<close> and \<open>v && e\<close> test it.\<close>

fun truthy :: "jsval \<Rightarrow> bool" where
  "truthy JUndefined = False"
| "truthy JNull = False"
| "truthy (JBool b) = b"
| "truthy (JNum n) = (n \<noteq> 0)"
| "truthy (JStr s) = (s \<noteq> [])"
| "truthy (JArr xs) = True"
| "truthy (JObj kv) = True"

text \<open>Member access \<open>v.k\<close> on a truthy value; \<open>None\<close> is \<open>undefined\<close>.\<close>

fun js_prop :: "jsval \<Rightarrow> string \<Rightarrow> jsval option" where
  "js_prop (JObj kv) k = map_of kv k"
| "js_prop v k = None"

section \<open>Feed connections (backend-api, feed-connections.service.ts)\<close>

subsection \<open>Errors\<close>

text \<open>
  Every exception class the service names, without the interpolated messages of the
  named ones. \<open>DiscordAPIError\<close> carries its message and its \<open>statusCode\<close>; \<open>Error\<close> is the
  plain JavaScript error with its message; \<open>CastError\<close> is what the feed model throws for a
  filter value it cannot cast to the type of the schema; \<open>OtherException\<close> stands for
  whatever else a collaborator throws.
\<close>

datatype error =
    DiscordAPIError string nat
  | DiscordChannelNotOwnedException
  | DiscordWebhookInvalidTypeException
  | DiscordWebhookMissingUserPermException
  | DiscordWebhookNonexistentException
  | DiscordWebhookNotOwnedException
  | DiscordChannelPermissionsException
  | MissingDiscordChannelException
  | CastError
  | Error string
  | OtherException string

definition NOT_FOUND :: nat where "NOT_FOUND = 404"
definition FORBIDDEN :: nat where "FORBIDDEN = 403"

subsection \<open>Data\<close>

text \<open>What the chat platform returns for a channel and for a webhook: the fields read here.\<close>

record discord_channel =
  ch_id :: string
  ch_guild_id :: string

record discord_webhook =
  wh_id :: string
  wh_guild_id :: string
  wh_token :: "string option"

text \<open>
  A channel connection as the service writes and reads it: \<open>id\<close>, \<open>name\<close>, the optional
  \<open>filters\<close> and the \<open>details\<close> object. The service addresses \<open>details\<close> by key
  (\<open>Object.entries\<close> of the patch), so it is kept as an object.
\<close>

record channel_connection =
  cc_id :: string
  cc_name :: string
  cc_filters :: "jsval option"
  cc_details :: "(string \<times> jsval) list"

record webhook_ref =
  wr_iconUrl :: "string option"
  wr_id :: string
  wr_name :: "string option"
  wr_token :: "string option"

record webhook_connection =
  wc_id :: string
  wc_name :: string
  wc_embeds :: "jsval list"
  wc_webhook :: webhook_ref

text \<open>
  A feed document: \<open>_id\<close>, the owning \<open>guild\<close>, the fields the feed service works on
  (\<open>url\<close>, \<open>title\<close>, \<open>text\<close> as \<open>feed_text\<close>, the embedded \<open>webhook\<close> object as
  \<open>feed_webhook\<close>) and the two connection lists
  \<open>connections.discordChannels\<close> and \<open>connections.discordWebhooks\<close>.
\<close>

record feed =
  feed_oid :: string
  guild :: string
  url :: string
  title :: string
  feed_text :: string
  feed_webhook :: "(string \<times> jsval) list option"
  discordChannels :: "channel_connection list"
  discordWebhooks :: "webhook_connection list"

subsection \<open>Collaborators and the world\<close>

text \<open>
  The services injected into \<open>FeedConnectionsService\<close>, as functions: each awaited call
  either throws or returns. \<open>canUseChannel\<close> gets the channel id as the JavaScript value
  the caller passes. \<open>discordChannelType\<close> is the constant
  \<open>FeedConnectionType.DiscordChannel\<close> of \<open>../feeds/constants\<close>.

  The feed model is the fourth collaborator. Stored ids are ObjectIds
  (\<open>new Types.ObjectId()\<close>, \<open>connection.id.equals\<close>), and the service passes the strings
  \<open>feedId\<close> and \<open>connectionId\<close> into the filter as they are: \<open>castsToObjectId\<close> says which
  strings the model casts to an ObjectId, and for any other the query throws. An id is
  written here as the string it casts from. \<open>undefinedInSet\<close> is what the model makes of
  a \<open>$set\<close> entry whose value is \<open>undefined\<close>: it strips the entry (\<open>None\<close>) or writes
  a value in its place.
\<close>

record env =
  canUseChannel :: "jsval option \<Rightarrow> string \<Rightarrow> error + discord_channel"
  getWebhook :: "string \<Rightarrow> error + discord_webhook option"
  canBeUsedByBot :: "discord_webhook \<Rightarrow> bool"
  userManagesGuild :: "string \<Rightarrow> string \<Rightarrow> error + bool"
  discordChannelType :: jsval
  castsToObjectId :: "string \<Rightarrow> bool"
  undefinedInSet :: "jsval option"

text \<open>The calls the service makes on its collaborators and on the feed model, as a trace.\<close>

datatype call =
    CanUseChannel "jsval option" string
  | GetWebhook string
  | CanBeUsedByBot discord_webhook
  | UserManagesGuild string string
  | FindOneAndUpdate string

record world =
  feeds :: "feed list"
  calls :: "call list"

definition called :: "call \<Rightarrow> world \<Rightarrow> world" where
  "called c w = w\<lparr>calls := calls w @ [c]\<rparr>"

subsection \<open>The feed model\<close>

text \<open>
  \<open>findOneAndUpdate(query, update, {new: true})\<close>: the first document that matches the
  query is updated; the result is the updated document, or \<open>null\<close> when none matches.
\<close>

fun findOneAndUpdate ::
  "(feed \<Rightarrow> bool) \<Rightarrow> (feed \<Rightarrow> feed) \<Rightarrow> feed list \<Rightarrow> feed option \<times> feed list" where
  "findOneAndUpdate q u [] = (None, [])"
| "findOneAndUpdate q u (f # fs) =
     (if q f then (Some (u f), u f # fs)
      else (case findOneAndUpdate q u fs of (r, fs') \<Rightarrow> (r, f # fs')))"

fun stripPrefix :: "string \<Rightarrow> string \<Rightarrow> string option" where
  "stripPrefix [] s = Some s"
| "stripPrefix (p # ps) [] = None"
| "stripPrefix (p # ps) (c # cs) = (if p = c then stripPrefix ps cs else None)"

definition channelsPath :: string where
  "channelsPath = ''connections.discordChannels.$.''"

definition detailsPath :: "string \<Rightarrow> string" where
  "detailsPath key = channelsPath @ ''details.'' @ key"

definition filtersPath :: string where
  "filtersPath = channelsPath @ ''filters''"

definition namePath :: string where
  "namePath = channelsPath @ ''name''"

text \<open>
  One entry of a \<open>$set\<close> on the matched element of \<open>connections.discordChannels\<close>: the
  path below the positional \<open>$\<close> names \<open>filters\<close>, \<open>name\<close> or a key of \<open>details\<close>. A key of
  \<open>details\<close> is one field name. The schema keeps \<open>name\<close> a string.
\<close>

definition applySetEntry :: "string \<times> jsval \<Rightarrow> channel_connection \<Rightarrow> channel_connection" where
  "applySetEntry e c =
     (case stripPrefix channelsPath (fst e) of
        None \<Rightarrow> c
      | Some field \<Rightarrow>
          (case stripPrefix ''details.'' field of
             Some key \<Rightarrow> c\<lparr>cc_details := AList.update key (snd e) (cc_details c)\<rparr>
           | None \<Rightarrow>
               if field = ''filters'' then c\<lparr>cc_filters := Some (snd e)\<rparr>
               else if field = ''name'' then
                 (case snd e of JStr s \<Rightarrow> c\<lparr>cc_name := s\<rparr> | _ \<Rightarrow> c)
               else c))"

definition applySet :: "(string \<times> jsval) list \<Rightarrow> channel_connection \<Rightarrow> channel_connection" where
  "applySet sets c = fold applySetEntry sets c"

text \<open>The positional \<open>$\<close>: the first element of the array with the queried id.\<close>

fun setPositional ::
  "string \<Rightarrow> (string \<times> jsval) list \<Rightarrow> channel_connection list \<Rightarrow> channel_connection list" where
  "setPositional connectionId sets [] = []"
| "setPositional connectionId sets (c # cs) =
     (if cc_id c = connectionId then applySet sets c # cs
      else c # setPositional connectionId sets cs)"

text \<open>
  The \<open>$set\<close> object as the feed model applies it: an entry whose value is \<open>undefined\<close> is
  stripped or gets the value the model writes for it; every other entry is applied as it
  is.
\<close>

definition castSet :: "env \<Rightarrow> (string \<times> jsval) list \<Rightarrow> (string \<times> jsval) list" where
  "castSet env sets =
     List.map_filter
       (\<lambda>e. if snd e = JUndefined
            then (case undefinedInSet env of None \<Rightarrow> None | Some v \<Rightarrow> Some (fst e, v))
            else Some e)
       sets"

subsection \<open>assertDiscordChannelCanBeUsed\<close>

text \<open>The \<open>catch\<close> block: what is thrown for an error caught from the \<open>try\<close> block.\<close>

definition rethrown :: "error \<Rightarrow> error" where
  "rethrown err =
     (case err of
        DiscordAPIError m statusCode \<Rightarrow>
          if statusCode = NOT_FOUND then MissingDiscordChannelException
          else if statusCode = FORBIDDEN then DiscordChannelPermissionsException
          else err
      | _ \<Rightarrow> err)"

definition assertDiscordChannelCanBeUsed ::
  "env \<Rightarrow> string \<Rightarrow> jsval option \<Rightarrow> string \<Rightarrow> world \<Rightarrow> (error + discord_channel) \<times> world" where
  "assertDiscordChannelCanBeUsed env accessToken channelId guildId w =
     (case canUseChannel env channelId accessToken of
        Inl err \<Rightarrow> (Inl (rethrown err), called (CanUseChannel channelId accessToken) w)
      | Inr channel \<Rightarrow>
          if ch_guild_id channel \<noteq> guildId
          then (Inl (rethrown DiscordChannelNotOwnedException),
                called (CanUseChannel channelId accessToken) w)
          else (Inr channel, called (CanUseChannel channelId accessToken) w))"

subsection \<open>createDiscordChannelConnection\<close>

text \<open>
  \<open>newId\<close> is the value of \<open>new Types.ObjectId()\<close>. The filter \<open>{_id: feedId}\<close> makes the
  query throw when \<open>feedId\<close> does not cast.
\<close>

definition createDiscordChannelConnection ::
  "env \<Rightarrow> string \<Rightarrow> string \<Rightarrow> string \<Rightarrow> string \<Rightarrow> string \<Rightarrow> string \<Rightarrow> world
   \<Rightarrow> (error + channel_connection) \<times> world" where
  "createDiscordChannelConnection env newId feedId name channelId userAccessToken guildId w =
     (case assertDiscordChannelCanBeUsed env userAccessToken (Some (JStr channelId)) guildId w of
        (Inl err, w1) \<Rightarrow> (Inl err, w1)
      | (Inr channel, w1) \<Rightarrow>
          if \<not> castsToObjectId env feedId
          then (Inl CastError, called (FindOneAndUpdate feedId) w1)
          else
          (case findOneAndUpdate (\<lambda>f. feed_oid f = feedId)
                  (\<lambda>f. f\<lparr>discordChannels := discordChannels f @
                     [\<lparr>cc_id = newId, cc_name = name, cc_filters = None,
                       cc_details = [(''type'', discordChannelType env),
                                     (''channel'', JObj [(''id'', JStr channelId)]),
                                     (''embeds'', JArr [])]\<rparr>]\<rparr>)
                  (feeds w1) of
             (updated, fs) \<Rightarrow>
               (case (case updated of
                        None \<Rightarrow> None
                      | Some f \<Rightarrow> find (\<lambda>connection. cc_id connection = newId) (discordChannels f)) of
                  None \<Rightarrow>
                    (Inl (Error ''Connection was not successfuly created. Check insertion statement and schemas are correct.''),
                     called (FindOneAndUpdate feedId) (w1\<lparr>feeds := fs\<rparr>))
                | Some createdConnection \<Rightarrow>
                    (Inr createdConnection, called (FindOneAndUpdate feedId) (w1\<lparr>feeds := fs\<rparr>)))))"

subsection \<open>updateDiscordChannelConnection\<close>

record updates =
  u_filters :: "jsval option"
  u_name :: "string option"
  u_details :: "(string \<times> jsval) list option"

text \<open>\<open>updates.details?.channel\<close>\<close>

definition detailsChannel :: "updates \<Rightarrow> jsval option" where
  "detailsChannel u = (case u_details u of None \<Rightarrow> None | Some d \<Rightarrow> map_of d ''channel'')"

text \<open>
  \<open>Object.entries(updates.details || {}).reduce(...)\<close>: each step spreads the accumulator
  and sets the dotted key, which replaces the value of a key already there and appends
  a new one. No step looks at the value: a key whose value is \<open>undefined\<close> gets its entry
  too.
\<close>

definition setRecordDetails :: "updates \<Rightarrow> (string \<times> jsval) list" where
  "setRecordDetails u =
     fold (\<lambda>(key, value) acc. AList.update (detailsPath key) value acc)
       (case u_details u of None \<Rightarrow> [] | Some d \<Rightarrow> d) []"

text \<open>The \<open>$set\<close> object of \<open>updateQuery\<close>.\<close>

definition updateQuery :: "updates \<Rightarrow> (string \<times> jsval) list" where
  "updateQuery u =
     (let set1 = setRecordDetails u;
          set2 = (case u_filters u of
                    None \<Rightarrow> set1
                  | Some filters \<Rightarrow>
                      if truthy filters then AList.update filtersPath filters set1 else set1)
      in (case u_name u of
            None \<Rightarrow> set2
          | Some name \<Rightarrow>
              if truthy (JStr name) then AList.update namePath (JStr name) set2 else set2))"

text \<open>The query \<open>findQuery\<close>, on ids that cast.\<close>

definition findQuery :: "string \<Rightarrow> string \<Rightarrow> feed \<Rightarrow> bool" where
  "findQuery feedId connectionId f =
     (feed_oid f = feedId \<and> list_ex (\<lambda>c. cc_id c = connectionId) (discordChannels f))"

text \<open>
  The function after its first statement: the update and the look-up of its result. The
  query throws when one of the two ids of the filter does not cast.
\<close>

definition persistUpdate ::
  "env \<Rightarrow> string \<Rightarrow> string \<Rightarrow> updates \<Rightarrow> world
   \<Rightarrow> (error + channel_connection) \<times> world" where
  "persistUpdate env feedId connectionId u w =
     (if \<not> castsToObjectId env feedId \<or> \<not> castsToObjectId env connectionId
      then (Inl CastError, called (FindOneAndUpdate feedId) w)
      else
      case findOneAndUpdate (findQuery feedId connectionId)
             (\<lambda>f. f\<lparr>discordChannels :=
                      setPositional connectionId (castSet env (updateQuery u))
                        (discordChannels f)\<rparr>)
             (feeds w) of
        (updated, fs) \<Rightarrow>
          (case (case updated of
                   None \<Rightarrow> None
                 | Some f \<Rightarrow>
                     find (\<lambda>connection. cc_id connection = connectionId) (discordChannels f)) of
             None \<Rightarrow>
               (Inl (Error ''Connection was not successfuly updated. Check insertion statement and schemas are correct.''),
                called (FindOneAndUpdate feedId) (w\<lparr>feeds := fs\<rparr>))
           | Some updatedConnection \<Rightarrow>
               (Inr updatedConnection, called (FindOneAndUpdate feedId) (w\<lparr>feeds := fs\<rparr>))))"

text \<open>
  The first statement: \<open>if (updates.details?.channel)\<close> tests the patch's channel for
  truthiness, and the verification gets \<open>updates.details.channel.id\<close>.
\<close>

definition carriesChannel :: "updates \<Rightarrow> bool" where
  "carriesChannel u = (case detailsChannel u of None \<Rightarrow> False | Some channel \<Rightarrow> truthy channel)"

definition patchChannelId :: "updates \<Rightarrow> jsval option" where
  "patchChannelId u = (case detailsChannel u of None \<Rightarrow> None | Some channel \<Rightarrow> js_prop channel ''id'')"

definition updateDiscordChannelConnection ::
  "env \<Rightarrow> string \<Rightarrow> string \<Rightarrow> string \<Rightarrow> updates \<Rightarrow> string \<Rightarrow> world
   \<Rightarrow> (error + channel_connection) \<times> world" where
  "updateDiscordChannelConnection env feedId connectionId accessToken u guildId w =
     (if carriesChannel u then
        (case assertDiscordChannelCanBeUsed env accessToken (patchChannelId u) guildId w of
           (Inl err, w1) \<Rightarrow> (Inl err, w1)
         | (Inr verified, w1) \<Rightarrow> persistUpdate env feedId connectionId u w1)
      else persistUpdate env feedId connectionId u w)"

subsection \<open>createDiscordWebhookConnection\<close>

text \<open>\<open>webhookId\<close> is the \<open>id\<close> of the \<open>webhook\<close> argument.\<close>

definition createDiscordWebhookConnection ::
  "env \<Rightarrow> string \<Rightarrow> string \<Rightarrow> string \<Rightarrow> string \<Rightarrow> string \<Rightarrow> string \<Rightarrow> string option
   \<Rightarrow> string option \<Rightarrow> world \<Rightarrow> (error + webhook_connection) \<times> world" where
  "createDiscordWebhookConnection env newId accessToken feedId guildId name webhookId webhookName iconUrl w =
     (case getWebhook env webhookId of
        Inl err \<Rightarrow> (Inl err, called (GetWebhook webhookId) w)
      | Inr None \<Rightarrow> (Inl DiscordWebhookNonexistentException, called (GetWebhook webhookId) w)
      | Inr (Some webhook) \<Rightarrow>
          if \<not> canBeUsedByBot env webhook
          then (Inl DiscordWebhookInvalidTypeException,
                called (CanBeUsedByBot webhook) (called (GetWebhook webhookId) w))
          else if wh_guild_id webhook \<noteq> guildId
          then (Inl DiscordWebhookNotOwnedException,
                called (CanBeUsedByBot webhook) (called (GetWebhook webhookId) w))
          else
            (case userManagesGuild env accessToken guildId of
               Inl err \<Rightarrow>
                 (Inl err, called (UserManagesGuild accessToken guildId)
                    (called (CanBeUsedByBot webhook) (called (GetWebhook webhookId) w)))
             | Inr manages \<Rightarrow>
                 if \<not> manages
                 then (Inl DiscordWebhookMissingUserPermException,
                       called (UserManagesGuild accessToken guildId)
                         (called (CanBeUsedByBot webhook) (called (GetWebhook webhookId) w)))
                 else if \<not> castsToObjectId env feedId
                 then (Inl CastError,
                       called (FindOneAndUpdate feedId)
                         (called (UserManagesGuild accessToken guildId)
                           (called (CanBeUsedByBot webhook) (called (GetWebhook webhookId) w))))
                 else
                   (case findOneAndUpdate (\<lambda>f. feed_oid f = feedId)
                           (\<lambda>f. f\<lparr>discordWebhooks := discordWebhooks f @
                              [\<lparr>wc_id = newId, wc_name = name, wc_embeds = [],
                                wc_webhook = \<lparr>wr_iconUrl = iconUrl, wr_id = webhookId,
                                               wr_name = webhookName,
                                               wr_token = wh_token webhook\<rparr>\<rparr>]\<rparr>)
                           (feeds w) of
                      (updated, fs) \<Rightarrow>
                        (case (case updated of
                                 None \<Rightarrow> None
                               | Some f \<Rightarrow>
                                   find (\<lambda>connection. wc_id connection = newId)
                                     (discordWebhooks f)) of
                           None \<Rightarrow>
                             (Inl (Error ''Connection was not successfuly created. Check insertion statement and schemas are correct.''),
                              called (FindOneAndUpdate feedId)
                                (called (UserManagesGuild accessToken guildId)
                                  (called (CanBeUsedByBot webhook)
                                    (called (GetWebhook webhookId) (w\<lparr>feeds := fs\<rparr>)))))
                         | Some createdConnection \<Rightarrow>
                             (Inr createdConnection,
                              called (FindOneAndUpdate feedId)
                                (called (UserManagesGuild accessToken guildId)
                                  (called (CanBeUsedByBot webhook)
                                    (called (GetWebhook webhookId) (w\<lparr>feeds := fs\<rparr>)))))))))"

subsection \<open>Reading errors, patches and the store\<close>

text \<open>\<open>err instanceof DiscordAPIError\<close> with \<open>err.statusCode === code\<close>.\<close>

definition isApiStatus :: "error \<Rightarrow> nat \<Rightarrow> bool" where
  "isApiStatus err code = (case err of DiscordAPIError m statusCode \<Rightarrow> statusCode = code | _ \<Rightarrow> False)"

text \<open>The keys of \<open>updates.details\<close>; none when the patch has no \<open>details\<close>.\<close>

definition patchKeys :: "updates \<Rightarrow> string set" where
  "patchKeys u = (case u_details u of None \<Rightarrow> {} | Some d \<Rightarrow> fst ` set d)"

text \<open>The entries of a JavaScript object have distinct keys.\<close>

definition distinctKeys :: "updates \<Rightarrow> bool" where
  "distinctKeys u = (case u_details u of None \<Rightarrow> True | Some d \<Rightarrow> distinct (map fst d))"

text \<open>
  \<open>absentKept u k c c'\<close>: connection \<open>c'\<close> has the id of \<open>c\<close>, and the name, the filters and
  the value of the details key \<open>k\<close> of \<open>c\<close> wherever the patch \<open>u\<close> does not provide them.
\<close>

definition absentKept :: "updates \<Rightarrow> string \<Rightarrow> channel_connection \<Rightarrow> channel_connection \<Rightarrow> bool" where
  "absentKept u k c c' =
     (cc_id c' = cc_id c
      \<and> (u_name u = None \<longrightarrow> cc_name c' = cc_name c)
      \<and> (u_filters u = None \<longrightarrow> cc_filters c' = cc_filters c)
      \<and> (k \<notin> patchKeys u \<longrightarrow> map_of (cc_details c') k = map_of (cc_details c) k))"

text \<open>A feed that differs from another at most in its channel connections, each kept as above.\<close>

definition feedKept :: "updates \<Rightarrow> string \<Rightarrow> feed \<Rightarrow> feed \<Rightarrow> bool" where
  "feedKept u k f f' =
     (f' = f\<lparr>discordChannels := discordChannels f'\<rparr>
      \<and> list_all2 (absentKept u k) (discordChannels f) (discordChannels f'))"

text \<open>The connection a call addresses: in the first feed that matches \<open>findQuery\<close>.\<close>

definition storedConnection :: "string \<Rightarrow> string \<Rightarrow> world \<Rightarrow> channel_connection option" where
  "storedConnection feedId connectionId w =
     (case find (findQuery feedId connectionId) (feeds w) of
        None \<Rightarrow> None
      | Some f \<Rightarrow> find (\<lambda>c. cc_id c = connectionId) (discordChannels f))"

definition storedNames :: "world \<Rightarrow> string list list" where
  "storedNames w = map (\<lambda>f. map cc_name (discordChannels f)) (feeds w)"

definition storedFilters :: "world \<Rightarrow> jsval option list list" where
  "storedFilters w = map (\<lambda>f. map cc_filters (discordChannels f)) (feeds w)"







section \<open>The feed service (findFeeds, updateOne, refresh)\<close>

text \<open>
  \<open>FeedsService\<close> itself is not among the sources: its tests are (the second part of
  \<open>SettingsForm.tsx\<close>), and so is its caller \<open>FeedsController\<close>. The definitions of this
  section are therefore modelled, each from the sentence of the specification it quotes,
  and checked against the assertions of the tests; the tests that read the status are
  transcribed as data.
\<close>

datatype FeedStatus = OK | FAILED

text \<open>A fail record; the collection is keyed by \<open>_id\<close>, the url of the feed.\<close>

record FailRecord =
  fr_reason :: "string option"
  fr_alerted :: bool
  failedAt :: int

type_synonym failRecords = "string \<rightharpoonup> FailRecord"

record DetailedFeed =
  df_feed :: feed
  df_status :: FeedStatus
  df_failReason :: "string option"

text \<open>
  Modelled from the spec: the decay of a FailureRecord, for \<open>findFeeds\<close>, which is not among
  the sources. The specification derives the status from the age of the FailureRecord of
  the url and a threshold. Its sentence puts FAILED below a threshold of 18 hours; the
  tests of the service, which are among the sources, expect OK for a record two hours old
  and FAILED for one of 1990; and no source holds the threshold. The rule therefore keeps
  open what the sources disagree on or leave out: \<open>failedBelow\<close> says whether the ages
  below the threshold are the failed ones or those above it, \<open>threshold\<close> is the age in
  milliseconds, and \<open>inclusive\<close> says whether an age equal to the threshold is failed.
\<close>

record decay =
  failedBelow :: bool
  threshold :: int
  inclusive :: bool

definition hasFailed :: "decay \<Rightarrow> int \<Rightarrow> FailRecord \<Rightarrow> bool" where
  "hasFailed d now r =
     (if now - failedAt r = threshold d then inclusive d
      else if failedBelow d then now - failedAt r < threshold d
      else threshold d < now - failedAt r)"



text \<open>
  Modelled from the spec: the status derivation of \<open>findFeeds\<close>, which is not among the
  sources. The status is derived from the FailureRecord of the url of the feed, if any,
  by the decay rule; a feed without one is OK.
\<close>

definition feedStatus :: "decay \<Rightarrow> failRecords \<Rightarrow> int \<Rightarrow> feed \<Rightarrow> FeedStatus" where
  "feedStatus d failRecords now f =
     (case failRecords (url f) of
        None \<Rightarrow> OK
      | Some r \<Rightarrow> if hasFailed d now r then FAILED else OK)"











text \<open>
  The patch of \<open>updateOne\<close>, as \<open>FeedsController.updateFeed\<close> builds it: an optional \<open>text\<close>
  and an optional \<open>webhook\<close> object with an optional \<open>id\<close>.
\<close>

record webhook_patch =
  wp_id :: "string option"

record UpdateFeedInput =
  uf_text :: "string option"
  uf_webhook :: "webhook_patch option"

text \<open>
  Modelled from the spec: \<open>updateOne(id, patch)\<close>, which is not among the sources, merges \<open>text\<close> if
  defined; an empty webhook id removes the whole embedded webhook object, an absent
  webhook field leaves it untouched, and a new id overwrites the object (the test \<open>does not
  persist any old webhook data if webhook is overwritten\<close>).
\<close>

definition mergeFeed :: "UpdateFeedInput \<Rightarrow> feed \<Rightarrow> feed" where
  "mergeFeed p f =
     f\<lparr>feed_text := (case uf_text p of None \<Rightarrow> feed_text f | Some t \<Rightarrow> t),
       feed_webhook :=
         (case uf_webhook p of
            None \<Rightarrow> feed_webhook f
          | Some wp \<Rightarrow>
              (case wp_id wp of
                 None \<Rightarrow> feed_webhook f
               | Some i \<Rightarrow> if i = [] then None else Some [(''id'', JStr i)]))\<rparr>"

text \<open>
  Modelled from the spec: \<open>updateOne\<close> returns the updated entity, or \<open>undefined\<close> if no
  document matched.
\<close>

definition updateOne :: "feed list \<Rightarrow> string \<Rightarrow> UpdateFeedInput \<Rightarrow> feed option \<times> feed list" where
  "updateOne fs feedId p = findOneAndUpdate (\<lambda>f. feed_oid f = feedId) (mergeFeed p) fs"

datatype feed_error = NotExists

text \<open>
  Modelled from the spec: \<open>refresh(id)\<close>, which is not among the sources, deletes any FailureRecord
  for the url of the subscription and returns the entity with status forced to OK; it
  fails if the subscription id does not exist.
\<close>

definition refresh ::
  "feed list \<Rightarrow> failRecords \<Rightarrow> string \<Rightarrow> (feed_error + DetailedFeed) \<times> failRecords" where
  "refresh fs failRecords feedId =
     (case find (\<lambda>f. feed_oid f = feedId) fs of
        None \<Rightarrow> (Inl NotExists, failRecords)
      | Some f \<Rightarrow>
          (Inr \<lparr>df_feed = f, df_status = OK, df_failReason = None\<rparr>,
           failRecords(url f := None)))"

section \<open>Example data\<close>

text \<open>A string of 24 hexadecimal digits, as an ObjectId is written.\<close>

definition isObjectIdString :: "string \<Rightarrow> bool" where
  "isObjectIdString s =
     (length s = 24 \<and> list_all (\<lambda>c. c \<in> set ''0123456789abcdefABCDEF'') s)"

text \<open>
  A small world for the examples: three channels the platform knows (one of another
  guild, one forbidden), one that makes it fail, three webhooks, one feed with one
  channel connection. The feed model casts strings of 24 hexadecimal digits and strips
  \<open>$set\<close> entries that are \<open>undefined\<close>.
\<close>

definition ex_env :: env where
  "ex_env =
     \<lparr>canUseChannel = (\<lambda>c tok.
          if c = Some (JStr ''chan-1'') then Inr \<lparr>ch_id = ''chan-1'', ch_guild_id = ''guild-1''\<rparr>
          else if c = Some (JStr ''chan-2'') then Inr \<lparr>ch_id = ''chan-2'', ch_guild_id = ''guild-2''\<rparr>
          else if c = Some (JStr ''chan-3'') then Inl (DiscordAPIError ''Missing Access'' 403)
          else if c = Some (JStr ''chan-5'') then Inl (DiscordAPIError ''Internal Server Error'' 500)
          else Inl (DiscordAPIError ''Unknown Channel'' 404)),
       getWebhook = (\<lambda>i.
          if i = ''hook-1'' then Inr (Some \<lparr>wh_id = ''hook-1'', wh_guild_id = ''guild-1'', wh_token = Some ''secret''\<rparr>)
          else if i = ''hook-2'' then Inr (Some \<lparr>wh_id = ''hook-2'', wh_guild_id = ''guild-1'', wh_token = None\<rparr>)
          else if i = ''hook-3'' then Inr (Some \<lparr>wh_id = ''hook-3'', wh_guild_id = ''guild-2'', wh_token = Some ''secret''\<rparr>)
          else Inr None),
       canBeUsedByBot = (\<lambda>wh. wh_token wh \<noteq> None),
       userManagesGuild = (\<lambda>tok g. Inr (tok = ''admin'')),
       discordChannelType = JStr ''DISCORD_CHANNEL'',
       castsToObjectId = isObjectIdString,
       undefinedInSet = None\<rparr>"

definition ex_feed :: feed where
  "ex_feed =
     \<lparr>feed_oid = ''5e6b5f0f7b1c8a1f7b3a0a01'', guild = ''guild-1'', url = ''https://example.com/feed'',
      title = ''Example'', feed_text = ''old-text'', feed_webhook = None,
      discordChannels =
        [\<lparr>cc_id = ''62f1a0c4d3b2a1908f7e6d01'', cc_name = ''first'', cc_filters = Some (JObj [(''expression'', JObj [])]),
          cc_details = [(''type'', JStr ''DISCORD_CHANNEL''),
                        (''channel'', JObj [(''id'', JStr ''chan-1'')]),
                        (''embeds'', JArr [])]\<rparr>],
      discordWebhooks = []\<rparr>"

definition ex_world :: world where
  "ex_world = \<lparr>feeds = [ex_feed], calls = []\<rparr>"

text \<open>
  A patch that renames the connection and sets the \<open>content\<close> of its details, and the
  connection of the example feed after it.
\<close>

definition ex_patch :: updates where
  "ex_patch = \<lparr>u_filters = None, u_name = Some ''renamed'',
               u_details = Some [(''content'', JStr ''hello'')]\<rparr>"

definition ex_updated :: channel_connection where
  "ex_updated =
     \<lparr>cc_id = ''62f1a0c4d3b2a1908f7e6d01'', cc_name = ''renamed'', cc_filters = Some (JObj [(''expression'', JObj [])]),
      cc_details = [(''type'', JStr ''DISCORD_CHANNEL''),
                    (''channel'', JObj [(''id'', JStr ''chan-1'')]),
                    (''embeds'', JArr []),
                    (''content'', JStr ''hello'')]\<rparr>"

text \<open>
  A patch whose \<open>details\<close> has the key \<open>channel\<close> with the value \<open>undefined\<close>, the connection
  of the example feed after it when the feed model strips the entry, and a feed model that
  writes \<open>null\<close> for it, with the connection after the patch under that model.
\<close>

definition ex_undefined_patch :: updates where
  "ex_undefined_patch =
     \<lparr>u_filters = None, u_name = None,
      u_details = Some [(''channel'', JUndefined), (''content'', JStr ''c'')]\<rparr>"

definition ex_stripped :: channel_connection where
  "ex_stripped =
     \<lparr>cc_id = ''62f1a0c4d3b2a1908f7e6d01'', cc_name = ''first'', cc_filters = Some (JObj [(''expression'', JObj [])]),
      cc_details = [(''type'', JStr ''DISCORD_CHANNEL''),
                    (''channel'', JObj [(''id'', JStr ''chan-1'')]),
                    (''embeds'', JArr []),
                    (''content'', JStr ''c'')]\<rparr>"

definition ex_env_null :: env where
  "ex_env_null = ex_env\<lparr>undefinedInSet := Some JNull\<rparr>"

definition ex_nulled :: channel_connection where
  "ex_nulled =
     \<lparr>cc_id = ''62f1a0c4d3b2a1908f7e6d01'', cc_name = ''first'', cc_filters = Some (JObj [(''expression'', JObj [])]),
      cc_details = [(''type'', JStr ''DISCORD_CHANNEL''),
                    (''channel'', JNull),
                    (''embeds'', JArr []),
                    (''content'', JStr ''c'')]\<rparr>"

text \<open>A patch that provides a falsy value for the filters and for the name.\<close>

definition ex_falsy_patch :: updates where
  "ex_falsy_patch = \<lparr>u_filters = Some JNull, u_name = Some [], u_details = None\<rparr>"







text \<open>
  Two FailureRecords for the url of the example feed, read at the clock reading
  100000000 ms: one failed two hours earlier, one nineteen hours earlier.
\<close>

definition ex_recent :: failRecords where
  "ex_recent = [''https://example.com/feed'' \<mapsto>
     \<lparr>fr_reason = Some ''test-fail-reason'', fr_alerted = False, failedAt = 92800000\<rparr>]"

definition ex_old :: failRecords where
  "ex_old = [''https://example.com/feed'' \<mapsto>
     \<lparr>fr_reason = Some ''test-fail-reason'', fr_alerted = False, failedAt = 31600000\<rparr>]"






text \<open>The example feed with an embedded webhook object of two fields.\<close>

definition ex_hooked :: feed where
  "ex_hooked = ex_feed\<lparr>feed_webhook := Some [(''id'', JStr ''old-webhook-id''), (''name'', JStr ''n'')]\<rparr>"

section \<open>Properties of delivery accounting\<close>

lemma count_splits_at_now:
  "countDeliveriesInPastTimeframe rs now f s = countRecent_spec rs now f s + datedAfter rs now f s"
  unfolding countDeliveriesInPastTimeframe_def countRecent_spec_def datedAfter_def
  by (induction rs) (auto simp: matchesCountQuery_def)

lemma count_skips_unmatched:
  "\<not> matchesCountQuery now f s r \<Longrightarrow>
   countDeliveriesInPastTimeframe (rs1 @ r # rs2) now f s =
   countDeliveriesInPastTimeframe (rs1 @ rs2) now f s"
  by (simp add: countDeliveriesInPastTimeframe_def)

text \<open>
  Claim C6, as the code has it. The query has a lower bound on the creation time and no
  upper bound: the count is the specification's count over \<open>[now - window, now]\<close> plus
  the Sent or Rejected records of the feed dated after \<open>now\<close>. So the two counts agree
  whenever no record is dated after the clock reading. A record with status Failed and a
  record created before the window start are never counted, wherever they stand in the
  table.
\<close>

theorem C6_countDeliveries_lower_bound_only:
  "countDeliveriesInPastTimeframe rs now f s
     = countRecent_spec rs now f s + datedAfter rs now f s
   \<and> ((\<forall>x \<in> set rs. created_at x \<le> now) \<longrightarrow>
        countDeliveriesInPastTimeframe rs now f s = countRecent_spec rs now f s)
   \<and> (status r = Failed \<longrightarrow>
        countDeliveriesInPastTimeframe (rs1 @ r # rs2) now f s
          = countDeliveriesInPastTimeframe (rs1 @ rs2) now f s)
   \<and> (created_at r < now - s * 1000 \<longrightarrow>
        countDeliveriesInPastTimeframe (rs1 @ r # rs2) now f s
          = countDeliveriesInPastTimeframe (rs1 @ rs2) now f s)"
proof (intro conjI impI)
  show "countDeliveriesInPastTimeframe rs now f s
          = countRecent_spec rs now f s + datedAfter rs now f s"
    by (rule count_splits_at_now)
next
  assume "\<forall>x \<in> set rs. created_at x \<le> now"
  then have "datedAfter rs now f s = 0"
    by (auto simp: datedAfter_def filter_empty_conv)
  then show "countDeliveriesInPastTimeframe rs now f s = countRecent_spec rs now f s"
    by (simp add: count_splits_at_now)
next
  assume "status r = Failed"
  then have "\<not> matchesCountQuery now f s r"
    by (simp add: matchesCountQuery_def)
  then show "countDeliveriesInPastTimeframe (rs1 @ r # rs2) now f s
               = countDeliveriesInPastTimeframe (rs1 @ rs2) now f s"
    by (rule count_skips_unmatched)
next
  assume "created_at r < now - s * 1000"
  then have "\<not> matchesCountQuery now f s r"
    by (simp add: matchesCountQuery_def)
  then show "countDeliveriesInPastTimeframe (rs1 @ r # rs2) now f s
               = countDeliveriesInPastTimeframe (rs1 @ rs2) now f s"
    by (rule count_skips_unmatched)
qed

text \<open>
  The specification's example at the clock reading 1000000 ms: one Sent record 10 s ago,
  one Rejected 20 s ago, one Sent 120 s ago and a 60 s window give 2, with and without a
  Failed record 5 s ago in between.
\<close>

theorem C6_countDeliveries_witness:
  "countDeliveriesInPastTimeframe
     [\<lparr>feed_id = ''f'', status = Sent, error_code = None, internal_message = None,
        created_at = 990000\<rparr>,
      \<lparr>feed_id = ''f'', status = Failed, error_code = Some ''e'', internal_message = None,
        created_at = 995000\<rparr>,
      \<lparr>feed_id = ''f'', status = Rejected, error_code = Some ''e'', internal_message = None,
        created_at = 980000\<rparr>,
      \<lparr>feed_id = ''f'', status = Sent, error_code = None, internal_message = None,
        created_at = 880000\<rparr>] 1000000 ''f'' 60 = 2
   \<and> countRecent_spec
     [\<lparr>feed_id = ''f'', status = Sent, error_code = None, internal_message = None,
        created_at = 990000\<rparr>,
      \<lparr>feed_id = ''f'', status = Rejected, error_code = Some ''e'', internal_message = None,
        created_at = 980000\<rparr>,
      \<lparr>feed_id = ''f'', status = Sent, error_code = None, internal_message = None,
        created_at = 880000\<rparr>] 1000000 ''f'' 60 = 2"
  using C6_countDeliveries_lower_bound_only
    [of "[\<lparr>feed_id = ''f'', status = Sent, error_code = None, internal_message = None,
            created_at = 990000\<rparr>,
          \<lparr>feed_id = ''f'', status = Rejected, error_code = Some ''e'',
            internal_message = None, created_at = 980000\<rparr>,
          \<lparr>feed_id = ''f'', status = Sent, error_code = None, internal_message = None,
            created_at = 880000\<rparr>]"
        1000000 "''f''" 60
        "\<lparr>feed_id = ''f'', status = Failed, error_code = Some ''e'', internal_message = None,
            created_at = 995000\<rparr>"
        "[\<lparr>feed_id = ''f'', status = Sent, error_code = None, internal_message = None,
            created_at = 990000\<rparr>]"
        "[\<lparr>feed_id = ''f'', status = Rejected, error_code = Some ''e'',
            internal_message = None, created_at = 980000\<rparr>,
          \<lparr>feed_id = ''f'', status = Sent, error_code = None, internal_message = None,
            created_at = 880000\<rparr>]"]
  by (simp add: countRecent_spec_def)

text \<open>
  Against claim C6 as stated: a Sent record of the feed dated one second after the clock
  reading lies outside \<open>[now - window, now]\<close>, and the query counts it.
\<close>

theorem C6_countDeliveries_counterexample:
  "countDeliveriesInPastTimeframe
     [\<lparr>feed_id = ''f'', status = Sent, error_code = None, internal_message = None,
        created_at = 1001000\<rparr>] 1000000 ''f'' 60 = 1
   \<and> countRecent_spec
     [\<lparr>feed_id = ''f'', status = Sent, error_code = None, internal_message = None,
        created_at = 1001000\<rparr>] 1000000 ''f'' 60 = 0"
  by (simp add: countDeliveriesInPastTimeframe_def matchesCountQuery_def countRecent_spec_def)

section \<open>Properties of the connection service\<close>

lemma rethrown_other: "\<not> isApiStatus err NOT_FOUND \<Longrightarrow> \<not> isApiStatus err FORBIDDEN \<Longrightarrow> rethrown err = err"
  by (auto simp: rethrown_def isApiStatus_def split: error.splits)

text \<open>
  Claim C3. Creating a channel connection for a channel whose guild is not the requested
  guild fails with \<open>DiscordChannelNotOwnedException\<close>; a \<open>DiscordAPIError\<close> with status
  404 becomes \<open>MissingDiscordChannelException\<close>, one with status 403 becomes
  \<open>DiscordChannelPermissionsException\<close>, and every other error of \<open>canUseChannel\<close> is
  thrown as it is. In each case the only call made is \<open>canUseChannel\<close> and the feeds are
  those before the call: nothing is persisted.
\<close>

theorem C3_create_channel_verification_failures:
  "(canUseChannel env (Some (JStr channelId)) tok = Inr channel \<and> ch_guild_id channel \<noteq> guildId \<longrightarrow>
      createDiscordChannelConnection env newId feedId name channelId tok guildId w
        = (Inl DiscordChannelNotOwnedException, called (CanUseChannel (Some (JStr channelId)) tok) w))
   \<and> (canUseChannel env (Some (JStr channelId)) tok = Inl (DiscordAPIError m NOT_FOUND) \<longrightarrow>
      createDiscordChannelConnection env newId feedId name channelId tok guildId w
        = (Inl MissingDiscordChannelException, called (CanUseChannel (Some (JStr channelId)) tok) w))
   \<and> (canUseChannel env (Some (JStr channelId)) tok = Inl (DiscordAPIError m FORBIDDEN) \<longrightarrow>
      createDiscordChannelConnection env newId feedId name channelId tok guildId w
        = (Inl DiscordChannelPermissionsException, called (CanUseChannel (Some (JStr channelId)) tok) w))
   \<and> (canUseChannel env (Some (JStr channelId)) tok = Inl err \<and> \<not> isApiStatus err NOT_FOUND
        \<and> \<not> isApiStatus err FORBIDDEN \<longrightarrow>
      createDiscordChannelConnection env newId feedId name channelId tok guildId w
        = (Inl err, called (CanUseChannel (Some (JStr channelId)) tok) w))
   \<and> feeds (called (CanUseChannel (Some (JStr channelId)) tok) w) = feeds w"
  by (auto simp: createDiscordChannelConnection_def assertDiscordChannelCanBeUsed_def
      rethrown_def rethrown_other called_def NOT_FOUND_def FORBIDDEN_def isApiStatus_def split: error.splits)

theorem C3_create_channel_witness:
  "createDiscordChannelConnection ex_env ''62f1a0c4d3b2a1908f7e6d09'' ''5e6b5f0f7b1c8a1f7b3a0a01'' ''second'' ''chan-2'' ''admin'' ''guild-1'' ex_world
     = (Inl DiscordChannelNotOwnedException,
        \<lparr>feeds = [ex_feed], calls = [CanUseChannel (Some (JStr ''chan-2'')) ''admin'']\<rparr>)
   \<and> createDiscordChannelConnection ex_env ''62f1a0c4d3b2a1908f7e6d09'' ''5e6b5f0f7b1c8a1f7b3a0a01'' ''second'' ''chan-4'' ''admin'' ''guild-1'' ex_world
     = (Inl MissingDiscordChannelException,
        \<lparr>feeds = [ex_feed], calls = [CanUseChannel (Some (JStr ''chan-4'')) ''admin'']\<rparr>)
   \<and> createDiscordChannelConnection ex_env ''62f1a0c4d3b2a1908f7e6d09'' ''5e6b5f0f7b1c8a1f7b3a0a01'' ''second'' ''chan-3'' ''admin'' ''guild-1'' ex_world
     = (Inl DiscordChannelPermissionsException,
        \<lparr>feeds = [ex_feed], calls = [CanUseChannel (Some (JStr ''chan-3'')) ''admin'']\<rparr>)
   \<and> createDiscordChannelConnection ex_env ''62f1a0c4d3b2a1908f7e6d09'' ''5e6b5f0f7b1c8a1f7b3a0a01'' ''second'' ''chan-5'' ''admin'' ''guild-1'' ex_world
     = (Inl (DiscordAPIError ''Internal Server Error'' 500),
        \<lparr>feeds = [ex_feed], calls = [CanUseChannel (Some (JStr ''chan-5'')) ''admin'']\<rparr>)"
  using C3_create_channel_verification_failures [of ex_env "''chan-2''" "''admin''" "\<lparr>ch_id = ''chan-2'', ch_guild_id = ''guild-2''\<rparr>" "''guild-1''"
               "''62f1a0c4d3b2a1908f7e6d09''" "''5e6b5f0f7b1c8a1f7b3a0a01''" "''second''" ex_world]
        C3_create_channel_verification_failures [of ex_env "''chan-4''" "''admin''" _ "''guild-1''"
               "''62f1a0c4d3b2a1908f7e6d09''" "''5e6b5f0f7b1c8a1f7b3a0a01''" "''second''" ex_world "''Unknown Channel''"]
        C3_create_channel_verification_failures [of ex_env "''chan-3''" "''admin''" _ "''guild-1''"
               "''62f1a0c4d3b2a1908f7e6d09''" "''5e6b5f0f7b1c8a1f7b3a0a01''" "''second''" ex_world "''Missing Access''"]
        C3_create_channel_verification_failures [of ex_env "''chan-5''" "''admin''" _ "''guild-1''"
               "''62f1a0c4d3b2a1908f7e6d09''" "''5e6b5f0f7b1c8a1f7b3a0a01''" "''second''" ex_world _ "DiscordAPIError ''Internal Server Error'' 500"]
  by (simp add: ex_env_def ex_world_def called_def NOT_FOUND_def FORBIDDEN_def isApiStatus_def)

text \<open>
  Claim C2. \<open>createDiscordWebhookConnection\<close> checks existence, type, ownership and the
  actor's permission in this order. A check that fails throws its own exception, the trace
  holds the calls up to that check and none after it, and the feeds are unchanged. When all
  four pass, the calls are made in this order and the update of the feed comes last.
\<close>

theorem C2_webhook_checks_in_order:
  "(getWebhook env webhookId = Inr None \<longrightarrow>
      createDiscordWebhookConnection env newId tok feedId guildId name webhookId wname icon w
        = (Inl DiscordWebhookNonexistentException, w\<lparr>calls := calls w @ [GetWebhook webhookId]\<rparr>))
   \<and> (getWebhook env webhookId = Inr (Some webhook) \<and> \<not> canBeUsedByBot env webhook \<longrightarrow>
      createDiscordWebhookConnection env newId tok feedId guildId name webhookId wname icon w
        = (Inl DiscordWebhookInvalidTypeException,
           w\<lparr>calls := calls w @ [GetWebhook webhookId, CanBeUsedByBot webhook]\<rparr>))
   \<and> (getWebhook env webhookId = Inr (Some webhook) \<and> canBeUsedByBot env webhook
        \<and> wh_guild_id webhook \<noteq> guildId \<longrightarrow>
      createDiscordWebhookConnection env newId tok feedId guildId name webhookId wname icon w
        = (Inl DiscordWebhookNotOwnedException,
           w\<lparr>calls := calls w @ [GetWebhook webhookId, CanBeUsedByBot webhook]\<rparr>))
   \<and> (getWebhook env webhookId = Inr (Some webhook) \<and> canBeUsedByBot env webhook
        \<and> wh_guild_id webhook = guildId \<and> userManagesGuild env tok guildId = Inr False \<longrightarrow>
      createDiscordWebhookConnection env newId tok feedId guildId name webhookId wname icon w
        = (Inl DiscordWebhookMissingUserPermException,
           w\<lparr>calls := calls w @ [GetWebhook webhookId, CanBeUsedByBot webhook,
                                   UserManagesGuild tok guildId]\<rparr>))
   \<and> (getWebhook env webhookId = Inr (Some webhook) \<and> canBeUsedByBot env webhook
        \<and> wh_guild_id webhook = guildId \<and> userManagesGuild env tok guildId = Inr True \<longrightarrow>
      calls (snd (createDiscordWebhookConnection env newId tok feedId guildId name webhookId wname icon w))
        = calls w @ [GetWebhook webhookId, CanBeUsedByBot webhook,
                     UserManagesGuild tok guildId, FindOneAndUpdate feedId])"
  by (auto simp: createDiscordWebhookConnection_def called_def split: prod.splits option.splits)

theorem C2_webhook_checks_witness:
  "createDiscordWebhookConnection ex_env ''62f1a0c4d3b2a1908f7e6d09'' ''admin'' ''5e6b5f0f7b1c8a1f7b3a0a01'' ''guild-1'' ''hook'' ''hook-0'' None None ex_world
     = (Inl DiscordWebhookNonexistentException, \<lparr>feeds = [ex_feed], calls = [GetWebhook ''hook-0'']\<rparr>)
   \<and> createDiscordWebhookConnection ex_env ''62f1a0c4d3b2a1908f7e6d09'' ''admin'' ''5e6b5f0f7b1c8a1f7b3a0a01'' ''guild-3'' ''hook'' ''hook-2'' None None ex_world
     = (Inl DiscordWebhookInvalidTypeException,
        \<lparr>feeds = [ex_feed],
         calls = [GetWebhook ''hook-2'',
                  CanBeUsedByBot \<lparr>wh_id = ''hook-2'', wh_guild_id = ''guild-1'', wh_token = None\<rparr>]\<rparr>)
   \<and> createDiscordWebhookConnection ex_env ''62f1a0c4d3b2a1908f7e6d09'' ''guest'' ''5e6b5f0f7b1c8a1f7b3a0a01'' ''guild-1'' ''hook'' ''hook-3'' None None ex_world
     = (Inl DiscordWebhookNotOwnedException,
        \<lparr>feeds = [ex_feed],
         calls = [GetWebhook ''hook-3'',
                  CanBeUsedByBot \<lparr>wh_id = ''hook-3'', wh_guild_id = ''guild-2'', wh_token = Some ''secret''\<rparr>]\<rparr>)
   \<and> createDiscordWebhookConnection ex_env ''62f1a0c4d3b2a1908f7e6d09'' ''guest'' ''5e6b5f0f7b1c8a1f7b3a0a01'' ''guild-1'' ''hook'' ''hook-1'' None None ex_world
     = (Inl DiscordWebhookMissingUserPermException,
        \<lparr>feeds = [ex_feed],
         calls = [GetWebhook ''hook-1'',
                  CanBeUsedByBot \<lparr>wh_id = ''hook-1'', wh_guild_id = ''guild-1'', wh_token = Some ''secret''\<rparr>,
                  UserManagesGuild ''guest'' ''guild-1'']\<rparr>)
   \<and> calls (snd (createDiscordWebhookConnection ex_env ''62f1a0c4d3b2a1908f7e6d09'' ''admin'' ''5e6b5f0f7b1c8a1f7b3a0a01'' ''guild-1'' ''hook'' ''hook-1'' None None ex_world))
     = [GetWebhook ''hook-1'',
        CanBeUsedByBot \<lparr>wh_id = ''hook-1'', wh_guild_id = ''guild-1'', wh_token = Some ''secret''\<rparr>,
        UserManagesGuild ''admin'' ''guild-1'', FindOneAndUpdate ''5e6b5f0f7b1c8a1f7b3a0a01'']"
  using C2_webhook_checks_in_order [of ex_env "''hook-0''" "''62f1a0c4d3b2a1908f7e6d09''" "''admin''" "''5e6b5f0f7b1c8a1f7b3a0a01''" "''guild-1''" "''hook''" None None ex_world]
        C2_webhook_checks_in_order [of ex_env "''hook-2''" "''62f1a0c4d3b2a1908f7e6d09''" "''admin''" "''5e6b5f0f7b1c8a1f7b3a0a01''" "''guild-3''" "''hook''" None None ex_world
               "\<lparr>wh_id = ''hook-2'', wh_guild_id = ''guild-1'', wh_token = None\<rparr>"]
        C2_webhook_checks_in_order [of ex_env "''hook-3''" "''62f1a0c4d3b2a1908f7e6d09''" "''guest''" "''5e6b5f0f7b1c8a1f7b3a0a01''" "''guild-1''" "''hook''" None None ex_world
               "\<lparr>wh_id = ''hook-3'', wh_guild_id = ''guild-2'', wh_token = Some ''secret''\<rparr>"]
        C2_webhook_checks_in_order [of ex_env "''hook-1''" "''62f1a0c4d3b2a1908f7e6d09''" "''guest''" "''5e6b5f0f7b1c8a1f7b3a0a01''" "''guild-1''" "''hook''" None None ex_world
               "\<lparr>wh_id = ''hook-1'', wh_guild_id = ''guild-1'', wh_token = Some ''secret''\<rparr>"]
        C2_webhook_checks_in_order [of ex_env "''hook-1''" "''62f1a0c4d3b2a1908f7e6d09''" "''admin''" "''5e6b5f0f7b1c8a1f7b3a0a01''" "''guild-1''" "''hook''" None None ex_world
               "\<lparr>wh_id = ''hook-1'', wh_guild_id = ''guild-1'', wh_token = Some ''secret''\<rparr>"]
  by (simp add: ex_env_def ex_world_def)

subsection \<open>Paths, the set document and the store\<close>

lemma stripPrefix_append: "stripPrefix p (p @ s) = Some s"
  by (induction p) auto

lemma stripPrefix_Some: "stripPrefix p s = Some r \<Longrightarrow> s = p @ r"
  by (induction p s rule: stripPrefix.induct) (auto split: if_splits)

lemma stripPrefix_details_filters: "stripPrefix ''details.'' ''filters'' = None"
  by simp

lemma stripPrefix_details_name: "stripPrefix ''details.'' ''name'' = None"
  by simp

lemma applySetEntry_details:
  "applySetEntry (detailsPath k, v) c = c\<lparr>cc_details := AList.update k v (cc_details c)\<rparr>"
  by (simp add: applySetEntry_def detailsPath_def stripPrefix_append)

lemma applySetEntry_filters:
  "applySetEntry (filtersPath, v) c = c\<lparr>cc_filters := Some v\<rparr>"
  by (simp add: applySetEntry_def filtersPath_def stripPrefix_append)

lemma applySetEntry_name:
  "applySetEntry (namePath, JStr s) c = c\<lparr>cc_name := s\<rparr>"
  by (simp add: applySetEntry_def namePath_def stripPrefix_append)

lemma applySetEntry_id: "cc_id (applySetEntry e c) = cc_id c"
  by (auto simp: applySetEntry_def split: option.splits jsval.splits)

lemma applySet_id: "cc_id (applySet sets c) = cc_id c"
  unfolding applySet_def by (induction sets arbitrary: c) (auto simp: applySetEntry_id)

lemma applySetEntry_name_frame:
  "fst e \<noteq> namePath \<Longrightarrow> cc_name (applySetEntry e c) = cc_name c"
  by (auto simp: applySetEntry_def namePath_def split: option.splits jsval.splits dest: stripPrefix_Some)

lemma applySetEntry_filters_frame:
  "fst e \<noteq> filtersPath \<Longrightarrow> cc_filters (applySetEntry e c) = cc_filters c"
  by (auto simp: applySetEntry_def filtersPath_def split: option.splits jsval.splits dest: stripPrefix_Some)

lemma applySetEntry_details_frame:
  "fst e \<noteq> detailsPath k \<Longrightarrow> map_of (cc_details (applySetEntry e c)) k = map_of (cc_details c) k"
  by (auto simp: applySetEntry_def detailsPath_def update_conv' split: option.splits jsval.splits dest!: stripPrefix_Some)

lemma applySet_name_frame:
  "namePath \<notin> fst ` set sets \<Longrightarrow> cc_name (applySet sets c) = cc_name c"
  unfolding applySet_def by (induction sets arbitrary: c) (auto simp: applySetEntry_name_frame)

lemma applySet_filters_frame:
  "filtersPath \<notin> fst ` set sets \<Longrightarrow> cc_filters (applySet sets c) = cc_filters c"
  unfolding applySet_def by (induction sets arbitrary: c) (auto simp: applySetEntry_filters_frame)

lemma applySet_details_frame:
  "detailsPath k \<notin> fst ` set sets \<Longrightarrow> map_of (cc_details (applySet sets c)) k = map_of (cc_details c) k"
  unfolding applySet_def by (induction sets arbitrary: c) (auto simp: applySetEntry_details_frame)

lemma fold_update_keys:
  "fst ` set (fold (\<lambda>(key, value) acc. AList.update (f key) value acc) d acc) = f ` fst ` set d \<union> fst ` set acc"
  by (induction d arbitrary: acc) (auto simp: dom_update split: prod.splits)

lemma setRecordDetails_keys:
  "fst ` set (setRecordDetails u) = detailsPath ` (case u_details u of None \<Rightarrow> {} | Some d \<Rightarrow> fst ` set d)"
  by (auto simp: setRecordDetails_def fold_update_keys split: option.splits)

lemma updateQuery_keys:
  "fst ` set (updateQuery u) =
     detailsPath ` (case u_details u of None \<Rightarrow> {} | Some d \<Rightarrow> fst ` set d)
     \<union> (case u_filters u of None \<Rightarrow> {} | Some v \<Rightarrow> if truthy v then {filtersPath} else {})
     \<union> (case u_name u of None \<Rightarrow> {} | Some n \<Rightarrow> if n \<noteq> [] then {namePath} else {})"
  by (auto simp: updateQuery_def Let_def dom_update setRecordDetails_keys split: option.splits)

lemma detailsPath_inj: "detailsPath a = detailsPath b \<longleftrightarrow> a = b"
  by (simp add: detailsPath_def)

lemma paths_differ:
  "detailsPath k \<noteq> filtersPath" "detailsPath k \<noteq> namePath" "filtersPath \<noteq> namePath"
  "filtersPath \<noteq> detailsPath k" "namePath \<noteq> detailsPath k" "namePath \<noteq> filtersPath"
  by (auto simp: detailsPath_def filtersPath_def namePath_def)

lemma findOneAndUpdate_rel:
  "(\<And>f. R f f) \<Longrightarrow> (\<And>f. q f \<Longrightarrow> R f (upd f)) \<Longrightarrow> list_all2 R fs (snd (findOneAndUpdate q upd fs))"
  by (induction fs) (auto simp: list_all2_refl split: prod.splits)

lemma findOneAndUpdate_fst:
  "fst (findOneAndUpdate q upd fs) = map_option upd (find q fs)"
  by (induction fs) (auto split: prod.splits)

lemma findOneAndUpdate_none:
  "\<not> list_ex q fs \<Longrightarrow> findOneAndUpdate q upd fs = (None, fs)"
  by (induction fs) (auto split: prod.splits)

lemma setPositional_rel:
  "(\<And>c. R c c) \<Longrightarrow> (\<And>c. cc_id c = cid \<Longrightarrow> R c (applySet sets c)) \<Longrightarrow>
   list_all2 R cs (setPositional cid sets cs)"
  by (induction cs) (auto simp: list_all2_refl)

lemma find_setPositional:
  "find (\<lambda>c. cc_id c = cid) (setPositional cid sets cs)
     = map_option (applySet sets) (find (\<lambda>c. cc_id c = cid) cs)"
  by (induction cs) (auto simp: applySet_id)

lemma find_list_ex: "list_ex P xs \<Longrightarrow> find P xs \<noteq> None"
  by (induction xs) auto


lemma persistUpdate_feeds:
  "feeds (snd (persistUpdate env feedId cid u w))
     = (if castsToObjectId env feedId \<and> castsToObjectId env cid
        then snd (findOneAndUpdate (findQuery feedId cid)
               (\<lambda>f. f\<lparr>discordChannels :=
                        setPositional cid (castSet env (updateQuery u)) (discordChannels f)\<rparr>)
               (feeds w))
        else feeds w)"
  by (auto simp: persistUpdate_def called_def split: prod.splits option.splits)

lemma persistUpdate_fst:
  "fst (persistUpdate env feedId cid u w)
     = (if castsToObjectId env feedId \<and> castsToObjectId env cid
        then (case storedConnection feedId cid w of
                None \<Rightarrow> Inl (Error ''Connection was not successfuly updated. Check insertion statement and schemas are correct.'')
              | Some c \<Rightarrow> Inr (applySet (castSet env (updateQuery u)) c))
        else Inl CastError)"
proof -
  obtain r fs where r: "findOneAndUpdate (findQuery feedId cid)
         (\<lambda>f. f\<lparr>discordChannels := setPositional cid (castSet env (updateQuery u)) (discordChannels f)\<rparr>) (feeds w) = (r, fs)"
    by (cases "findOneAndUpdate (findQuery feedId cid)
         (\<lambda>f. f\<lparr>discordChannels := setPositional cid (castSet env (updateQuery u)) (discordChannels f)\<rparr>) (feeds w)")
  have "r = map_option (\<lambda>f. f\<lparr>discordChannels := setPositional cid (castSet env (updateQuery u)) (discordChannels f)\<rparr>)
             (find (findQuery feedId cid) (feeds w))"
    using findOneAndUpdate_fst [of "findQuery feedId cid" _ "feeds w"] r by (metis fst_conv)
  then show ?thesis
    using r
    by (auto simp: persistUpdate_def storedConnection_def find_setPositional
        split: option.splits)
qed

lemma applySet_details_written:
  "distinct (map fst sets) \<Longrightarrow>
   map_of (cc_details (applySet sets c)) k
     = (case map_of sets (detailsPath k) of Some v \<Rightarrow> Some v | None \<Rightarrow> map_of (cc_details c) k)"
  unfolding applySet_def
proof (induction sets arbitrary: c)
  case Nil
  then show ?case by simp
next
  case (Cons e es)
  obtain p v where e: "e = (p, v)" by (cases e)
  show ?case
  proof (cases "p = detailsPath k")
    case True
    with Cons.prems e have "map_of es (detailsPath k) = None"
      by (auto simp: map_of_eq_None_iff)
    with Cons True e show ?thesis
      by (simp add: applySetEntry_details update_conv')
  next
    case False
    with Cons e show ?thesis
      by (simp add: applySetEntry_details_frame split: option.splits)
  qed
qed

lemma applySet_filters_written:
  "distinct (map fst sets) \<Longrightarrow>
   cc_filters (applySet sets c)
     = (case map_of sets filtersPath of Some v \<Rightarrow> Some v | None \<Rightarrow> cc_filters c)"
  unfolding applySet_def
proof (induction sets arbitrary: c)
  case Nil
  then show ?case by simp
next
  case (Cons e es)
  obtain p v where e: "e = (p, v)" by (cases e)
  show ?case
  proof (cases "p = filtersPath")
    case True
    with Cons.prems e have "map_of es filtersPath = None"
      by (auto simp: map_of_eq_None_iff)
    with Cons True e show ?thesis
      by (simp add: applySetEntry_filters)
  next
    case False
    with Cons e show ?thesis
      by (simp add: applySetEntry_filters_frame split: option.splits)
  qed
qed

lemma applySet_name_written:
  "distinct (map fst sets) \<Longrightarrow> map_of sets namePath = Some (JStr n) \<Longrightarrow>
   cc_name (applySet sets c) = n"
  unfolding applySet_def
proof (induction sets arbitrary: c)
  case Nil
  then show ?case by simp
next
  case (Cons e es)
  obtain p v where e: "e = (p, v)" by (cases e)
  show ?case
  proof (cases "p = namePath")
    case True
    with Cons.prems e have "namePath \<notin> fst ` set es" and "v = JStr n"
      by auto
    with True e show ?thesis
      using applySet_name_frame [of es "applySetEntry e c"]
      by (simp add: applySet_def applySetEntry_name)
  next
    case False
    with Cons e show ?thesis
      by simp
  qed
qed

lemma fold_update_distinct:
  "distinct (map fst acc) \<Longrightarrow>
   distinct (map fst (fold (\<lambda>(key, value) acc. AList.update (f key) value acc) d acc))"
  by (induction d arbitrary: acc) (auto simp: distinct_update split: prod.splits)

lemma updateQuery_distinct: "distinct (map fst (updateQuery u))"
  by (auto simp: updateQuery_def Let_def setRecordDetails_def fold_update_distinct distinct_update
      split: option.splits)

lemma fold_update_map_of:
  "distinct (map fst d) \<Longrightarrow>
   map_of (fold (\<lambda>(key, value) acc. AList.update (detailsPath key) value acc) d acc) (detailsPath k)
     = (case map_of d k of Some v \<Rightarrow> Some v | None \<Rightarrow> map_of acc (detailsPath k))"
proof (induction d arbitrary: acc)
  case Nil
  then show ?case by simp
next
  case (Cons e d)
  obtain k1 v1 where e: "e = (k1, v1)" by (cases e)
  show ?case
  proof (cases "k1 = k")
    case True
    with Cons.prems e have "map_of d k = None"
      by (auto simp: map_of_eq_None_iff)
    with Cons True e show ?thesis
      by (simp add: update_conv')
  next
    case False
    with Cons e show ?thesis
      by (simp add: update_conv' detailsPath_inj split: option.splits)
  qed
qed

lemma updateQuery_details:
  "distinctKeys u \<Longrightarrow>
   map_of (updateQuery u) (detailsPath k)
     = (case u_details u of None \<Rightarrow> None | Some d \<Rightarrow> map_of d k)"
  by (auto simp: updateQuery_def Let_def setRecordDetails_def distinctKeys_def fold_update_map_of
      update_conv' paths_differ split: option.splits)

lemma setRecordDetails_filters: "map_of (setRecordDetails u) filtersPath = None"
  using setRecordDetails_keys [of u]
  by (auto simp: map_of_eq_None_iff paths_differ split: option.splits)

lemma setRecordDetails_name: "map_of (setRecordDetails u) namePath = None"
  using setRecordDetails_keys [of u]
  by (auto simp: map_of_eq_None_iff paths_differ split: option.splits)

lemma updateQuery_filters:
  "map_of (updateQuery u) filtersPath
     = (case u_filters u of None \<Rightarrow> None | Some v \<Rightarrow> if truthy v then Some v else None)"
  by (simp add: updateQuery_def Let_def update_conv' paths_differ setRecordDetails_filters
      split: option.splits)

lemma updateQuery_name:
  "map_of (updateQuery u) namePath
     = (case u_name u of None \<Rightarrow> None | Some n \<Rightarrow> if n \<noteq> [] then Some (JStr n) else None)"
  by (simp add: updateQuery_def Let_def update_conv' paths_differ setRecordDetails_name
      split: option.splits)

lemma castSet_Nil: "castSet env [] = []"
  by (simp add: castSet_def map_filter_simps)

lemma castSet_Cons:
  "castSet env ((q, v) # sets)
     = (if v = JUndefined
        then (case undefinedInSet env of
                None \<Rightarrow> castSet env sets
              | Some v' \<Rightarrow> (q, v') # castSet env sets)
        else (q, v) # castSet env sets)"
  by (simp add: castSet_def map_filter_simps split: option.splits)

lemma castSet_keys: "fst ` set (castSet env sets) \<subseteq> fst ` set sets"
proof (induction sets)
  case Nil
  then show ?case by (simp add: castSet_Nil)
next
  case (Cons e sets)
  obtain q v where e: "e = (q, v)" by (cases e)
  have "fst ` set (castSet env ((q, v) # sets)) \<subseteq> insert q (fst ` set (castSet env sets))"
    by (auto simp: castSet_Cons split: option.splits if_splits)
  also have "\<dots> \<subseteq> insert q (fst ` set sets)"
    using Cons by blast
  finally show ?case
    by (simp add: e)
qed

lemma castSet_distinct: "distinct (map fst sets) \<Longrightarrow> distinct (map fst (castSet env sets))"
proof (induction sets)
  case Nil
  then show ?case by (simp add: castSet_Nil)
next
  case (Cons e sets)
  obtain q v where e: "e = (q, v)" by (cases e)
  from Cons.prems e have "q \<notin> fst ` set (castSet env sets)"
    using castSet_keys [of env sets] by auto
  then have "q \<notin> set (map fst (castSet env sets))"
    by simp
  moreover from Cons e have "distinct (map fst (castSet env sets))"
    by simp
  ultimately show ?case
    unfolding e castSet_Cons by (simp split: option.splits)
qed

lemma castSet_map_of:
  "distinct (map fst sets) \<Longrightarrow>
   map_of (castSet env sets) p
     = (case map_of sets p of
          None \<Rightarrow> None
        | Some v \<Rightarrow> if v = JUndefined then undefinedInSet env else Some v)"
proof (induction sets)
  case Nil
  then show ?case by (simp add: castSet_Nil)
next
  case (Cons e sets)
  obtain q v where e: "e = (q, v)" by (cases e)
  from Cons have ih: "map_of (castSet env sets) p
     = (case map_of sets p of
          None \<Rightarrow> None
        | Some v \<Rightarrow> if v = JUndefined then undefinedInSet env else Some v)"
    by simp
  from Cons.prems e have q: "map_of sets q = None"
    by (auto simp: map_of_eq_None_iff)
  show ?case
    using ih q by (auto simp: castSet_Cons e split: option.splits)
qed

subsection \<open>Updating a channel connection\<close>

lemma assert_snd:
  "snd (assertDiscordChannelCanBeUsed env tok cid guildId w) = called (CanUseChannel cid tok) w"
  by (auto simp: assertDiscordChannelCanBeUsed_def split: sum.splits)

lemma assert_fst:
  "fst (assertDiscordChannelCanBeUsed env tok cid guildId w)
     = (case canUseChannel env cid tok of
          Inl err \<Rightarrow> Inl (rethrown err)
        | Inr channel \<Rightarrow>
            if ch_guild_id channel \<noteq> guildId then Inl DiscordChannelNotOwnedException
            else Inr channel)"
  by (auto simp: assertDiscordChannelCanBeUsed_def rethrown_def split: sum.splits)

lemma absentKept_refl: "absentKept u k c c"
  by (simp add: absentKept_def)

lemma feedKept_refl: "feedKept u k f f"
  by (simp add: feedKept_def list_all2_refl absentKept_refl)

lemma updateQuery_paths:
  "fst ` set (updateQuery u) =
     detailsPath ` patchKeys u
     \<union> (case u_filters u of None \<Rightarrow> {} | Some v \<Rightarrow> if truthy v then {filtersPath} else {})
     \<union> (case u_name u of None \<Rightarrow> {} | Some n \<Rightarrow> if n \<noteq> [] then {namePath} else {})"
  by (simp add: updateQuery_keys patchKeys_def)

lemma detailsPath_mem: "detailsPath k \<in> detailsPath ` K \<longleftrightarrow> k \<in> K"
  by (auto simp: detailsPath_inj)

lemma absentKept_applySet: "absentKept u k c (applySet (castSet env (updateQuery u)) c)"
  unfolding absentKept_def
proof (intro conjI impI)
  show "cc_id (applySet (castSet env (updateQuery u)) c) = cc_id c"
    by (rule applySet_id)
next
  assume "u_name u = None"
  then have "namePath \<notin> fst ` set (updateQuery u)"
    by (auto simp: updateQuery_keys paths_differ split: option.splits if_splits)
  then have "namePath \<notin> fst ` set (castSet env (updateQuery u))"
    using castSet_keys [of env "updateQuery u"] by blast
  then show "cc_name (applySet (castSet env (updateQuery u)) c) = cc_name c"
    by (rule applySet_name_frame)
next
  assume "u_filters u = None"
  then have "filtersPath \<notin> fst ` set (updateQuery u)"
    by (auto simp: updateQuery_keys paths_differ split: option.splits if_splits)
  then have "filtersPath \<notin> fst ` set (castSet env (updateQuery u))"
    using castSet_keys [of env "updateQuery u"] by blast
  then show "cc_filters (applySet (castSet env (updateQuery u)) c) = cc_filters c"
    by (rule applySet_filters_frame)
next
  assume "k \<notin> patchKeys u"
  then have "detailsPath k \<notin> fst ` set (updateQuery u)"
    by (simp add: updateQuery_paths detailsPath_mem paths_differ split: option.splits)
  then have "detailsPath k \<notin> fst ` set (castSet env (updateQuery u))"
    using castSet_keys [of env "updateQuery u"] by blast
  then show "map_of (cc_details (applySet (castSet env (updateQuery u)) c)) k = map_of (cc_details c) k"
    by (rule applySet_details_frame)
qed

lemma persistUpdate_frame:
  "list_all2 (feedKept u k) (feeds w) (feeds (snd (persistUpdate env feedId cid u w)))"
proof (cases "castsToObjectId env feedId \<and> castsToObjectId env cid")
  case True
  have "list_all2 (feedKept u k) (feeds w)
          (snd (findOneAndUpdate (findQuery feedId cid)
               (\<lambda>f. f\<lparr>discordChannels :=
                        setPositional cid (castSet env (updateQuery u)) (discordChannels f)\<rparr>)
               (feeds w)))"
    by (rule findOneAndUpdate_rel)
       (auto simp: feedKept_refl feedKept_def absentKept_refl absentKept_applySet
         intro!: setPositional_rel)
  with True show ?thesis
    by (simp add: persistUpdate_feeds)
next
  case False
  then show ?thesis
    by (auto simp: persistUpdate_feeds list_all2_refl feedKept_refl)
qed

lemma update_cases:
  "updateDiscordChannelConnection env feedId cid tok u guildId w
     = (if carriesChannel u then
          (case canUseChannel env (patchChannelId u) tok of
             Inl err \<Rightarrow> (Inl (rethrown err), called (CanUseChannel (patchChannelId u) tok) w)
           | Inr channel \<Rightarrow>
               if ch_guild_id channel \<noteq> guildId
               then (Inl DiscordChannelNotOwnedException, called (CanUseChannel (patchChannelId u) tok) w)
               else persistUpdate env feedId cid u (called (CanUseChannel (patchChannelId u) tok) w))
        else persistUpdate env feedId cid u w)"
  by (auto simp: updateDiscordChannelConnection_def assertDiscordChannelCanBeUsed_def rethrown_def
      split: sum.splits)

lemma called_feeds: "feeds (called c w) = feeds w"
  by (simp add: called_def)


lemma storedConnection_called: "storedConnection feedId cid (called c w) = storedConnection feedId cid w"
  by (simp add: storedConnection_def called_feeds)

lemma update_frame:
  "list_all2 (feedKept u k) (feeds w)
     (feeds (snd (updateDiscordChannelConnection env feedId cid tok u guildId w)))"
  using persistUpdate_frame [of u k w env feedId cid]
        persistUpdate_frame [of u k "called (CanUseChannel (patchChannelId u) tok) w" env feedId cid]
  by (auto simp: update_cases called_feeds list_all2_refl feedKept_refl split: sum.splits)

lemma update_result:
  "fst (updateDiscordChannelConnection env feedId cid tok u guildId w) = Inr c' \<Longrightarrow>
   (case storedConnection feedId cid w of
      None \<Rightarrow> False
    | Some c \<Rightarrow> c' = applySet (castSet env (updateQuery u)) c)"
  by (auto simp: update_cases persistUpdate_fst storedConnection_called
      split: sum.splits if_splits option.splits)

lemmas eval_update =
  updateDiscordChannelConnection_def carriesChannel_def detailsChannel_def patchChannelId_def
  persistUpdate_def findQuery_def updateQuery_def setRecordDetails_def detailsPath_def
  filtersPath_def namePath_def channelsPath_def applySet_def applySetEntry_def called_def
  assertDiscordChannelCanBeUsed_def rethrown_def NOT_FOUND_def FORBIDDEN_def
  castSet_def map_filter_simps isObjectIdString_def

lemma ex_update_value:
  "updateDiscordChannelConnection ex_env ''5e6b5f0f7b1c8a1f7b3a0a01'' ''62f1a0c4d3b2a1908f7e6d01'' ''admin'' ex_patch ''guild-1'' ex_world
     = (Inr \<lparr>cc_id = ''62f1a0c4d3b2a1908f7e6d01'', cc_name = ''renamed'', cc_filters = Some (JObj [(''expression'', JObj [])]),
            cc_details = [(''type'', JStr ''DISCORD_CHANNEL''),
                          (''channel'', JObj [(''id'', JStr ''chan-1'')]),
                          (''embeds'', JArr []),
                          (''content'', JStr ''hello'')]\<rparr>,
        \<lparr>feeds = [ex_feed\<lparr>discordChannels :=
                   [\<lparr>cc_id = ''62f1a0c4d3b2a1908f7e6d01'', cc_name = ''renamed'', cc_filters = Some (JObj [(''expression'', JObj [])]),
                     cc_details = [(''type'', JStr ''DISCORD_CHANNEL''),
                                   (''channel'', JObj [(''id'', JStr ''chan-1'')]),
                                   (''embeds'', JArr []),
                                   (''content'', JStr ''hello'')]\<rparr>]\<rparr>],
         calls = [FindOneAndUpdate ''5e6b5f0f7b1c8a1f7b3a0a01'']\<rparr>)"
  by (simp add: eval_update ex_patch_def ex_world_def ex_feed_def ex_env_def)

text \<open>
  Claim C5. Whatever a call of \<open>updateDiscordChannelConnection\<close> returns, every feed after
  it is the feed before it up to its channel connections, and every channel connection has
  the name, the filters and the value of each details key \<open>k\<close> it had before wherever the
  patch does not provide them. The keys of the \<open>$set\<close> document are the dotted paths of the
  keys of the \<open>details\<close> of the patch (also of a key whose value is \<open>undefined\<close>), the filters
  path when truthy filters are provided, and the name path when a non-empty name is
  provided. The returned connection is the stored one with the provided values written:
  truthy filters, a non-empty name, and for a key of \<open>details\<close> its value, except that for
  the value \<open>undefined\<close> the feed model decides (the stored value stays when it strips the
  entry).
\<close>

theorem C5_absent_fields_unchanged:
  assumes "updateDiscordChannelConnection env feedId cid tok u guildId w = (res, w')"
  shows "list_all2 (feedKept u k) (feeds w) (feeds w')
    \<and> fst ` set (updateQuery u) =
         detailsPath ` patchKeys u
         \<union> (case u_filters u of None \<Rightarrow> {} | Some v \<Rightarrow> if truthy v then {filtersPath} else {})
         \<union> (case u_name u of None \<Rightarrow> {} | Some n \<Rightarrow> if n \<noteq> [] then {namePath} else {})
    \<and> (res = Inr c' \<longrightarrow>
         (case storedConnection feedId cid w of
            None \<Rightarrow> False
          | Some c \<Rightarrow>
              absentKept u k c c'
              \<and> (distinctKeys u \<and> u_details u = Some d \<and> map_of d k = Some x \<longrightarrow>
                   map_of (cc_details c') k
                     = (if x \<noteq> JUndefined then Some x
                        else (case undefinedInSet env of
                                None \<Rightarrow> map_of (cc_details c) k
                              | Some y \<Rightarrow> Some y))))
         \<and> (u_filters u = Some v \<and> truthy v \<longrightarrow> cc_filters c' = Some v)
         \<and> (u_name u = Some n \<and> n \<noteq> [] \<longrightarrow> cc_name c' = n))"
proof (intro conjI impI)
  show "list_all2 (feedKept u k) (feeds w) (feeds w')"
    using update_frame [of u k w env feedId cid tok guildId] assms by simp
next
  show "fst ` set (updateQuery u) =
         detailsPath ` patchKeys u
         \<union> (case u_filters u of None \<Rightarrow> {} | Some v \<Rightarrow> if truthy v then {filtersPath} else {})
         \<union> (case u_name u of None \<Rightarrow> {} | Some n \<Rightarrow> if n \<noteq> [] then {namePath} else {})"
    by (rule updateQuery_paths)
next
  assume r: "res = Inr c'"
  then have *: "case storedConnection feedId cid w of None \<Rightarrow> False
                | Some c \<Rightarrow> c' = applySet (castSet env (updateQuery u)) c"
    using update_result [of env feedId cid tok u guildId w c'] assms by simp
  then obtain c where c: "storedConnection feedId cid w = Some c"
      "c' = applySet (castSet env (updateQuery u)) c"
    by (auto split: option.splits)
  have dist: "distinct (map fst (castSet env (updateQuery u)))"
    by (rule castSet_distinct [OF updateQuery_distinct])
  have kept: "absentKept u k c c'"
    using c by (simp add: absentKept_applySet)
  have written: "map_of (cc_details c') k
                     = (if x \<noteq> JUndefined then Some x
                        else (case undefinedInSet env of
                                None \<Rightarrow> map_of (cc_details c) k
                              | Some y \<Rightarrow> Some y))"
    if "distinctKeys u \<and> u_details u = Some d \<and> map_of d k = Some x"
  proof -
    from that have "map_of (updateQuery u) (detailsPath k) = Some x"
      by (simp add: updateQuery_details)
    then have "map_of (castSet env (updateQuery u)) (detailsPath k)
                 = (if x = JUndefined then undefinedInSet env else Some x)"
      by (simp add: castSet_map_of [OF updateQuery_distinct])
    then show ?thesis
      using c applySet_details_written [OF dist, of c k]
      by (auto split: option.splits)
  qed
  show "case storedConnection feedId cid w of
            None \<Rightarrow> False
          | Some c \<Rightarrow>
              absentKept u k c c'
              \<and> (distinctKeys u \<and> u_details u = Some d \<and> map_of d k = Some x \<longrightarrow>
                   map_of (cc_details c') k
                     = (if x \<noteq> JUndefined then Some x
                        else (case undefinedInSet env of
                                None \<Rightarrow> map_of (cc_details c) k
                              | Some y \<Rightarrow> Some y)))"
    using c(1) kept written by simp
  {
    assume f: "u_filters u = Some v \<and> truthy v"
    then have "v \<noteq> JUndefined"
      by auto
    with f have "map_of (castSet env (updateQuery u)) filtersPath = Some v"
      by (simp add: castSet_map_of [OF updateQuery_distinct] updateQuery_filters)
    then show "cc_filters c' = Some v"
      using c applySet_filters_written [OF dist, of c]
      by simp
  }
  {
    assume "u_name u = Some n \<and> n \<noteq> []"
    then have "map_of (castSet env (updateQuery u)) namePath = Some (JStr n)"
      by (simp add: castSet_map_of [OF updateQuery_distinct] updateQuery_name)
    then show "cc_name c' = n"
      using c applySet_name_written [OF dist, of n c]
      by simp
  }
qed

lemma ex_update_result:
  "updateDiscordChannelConnection ex_env ''5e6b5f0f7b1c8a1f7b3a0a01'' ''62f1a0c4d3b2a1908f7e6d01'' ''admin'' ex_patch ''guild-1'' ex_world
     = (Inr ex_updated,
        \<lparr>feeds = [ex_feed\<lparr>discordChannels := [ex_updated]\<rparr>], calls = [FindOneAndUpdate ''5e6b5f0f7b1c8a1f7b3a0a01'']\<rparr>)"
  by (simp add: ex_update_value ex_updated_def)

lemma ex_undefined_stripped:
  "updateDiscordChannelConnection ex_env ''5e6b5f0f7b1c8a1f7b3a0a01'' ''62f1a0c4d3b2a1908f7e6d01'' ''admin'' ex_undefined_patch ''guild-1'' ex_world
     = (Inr ex_stripped,
        \<lparr>feeds = [ex_feed\<lparr>discordChannels := [ex_stripped]\<rparr>], calls = [FindOneAndUpdate ''5e6b5f0f7b1c8a1f7b3a0a01'']\<rparr>)"
  by (simp add: eval_update ex_undefined_patch_def ex_stripped_def ex_world_def ex_feed_def ex_env_def)

lemma ex_undefined_nulled:
  "updateDiscordChannelConnection ex_env_null ''5e6b5f0f7b1c8a1f7b3a0a01'' ''62f1a0c4d3b2a1908f7e6d01'' ''admin'' ex_undefined_patch ''guild-1'' ex_world
     = (Inr ex_nulled,
        \<lparr>feeds = [ex_feed\<lparr>discordChannels := [ex_nulled]\<rparr>], calls = [FindOneAndUpdate ''5e6b5f0f7b1c8a1f7b3a0a01'']\<rparr>)"
  by (simp add: eval_update ex_undefined_patch_def ex_nulled_def ex_world_def ex_feed_def
      ex_env_null_def ex_env_def)

lemma ex_stored:
  "storedConnection ''5e6b5f0f7b1c8a1f7b3a0a01'' ''62f1a0c4d3b2a1908f7e6d01'' ex_world
     = Some \<lparr>cc_id = ''62f1a0c4d3b2a1908f7e6d01'', cc_name = ''first'',
             cc_filters = Some (JObj [(''expression'', JObj [])]),
             cc_details = [(''type'', JStr ''DISCORD_CHANNEL''),
                           (''channel'', JObj [(''id'', JStr ''chan-1'')]),
                           (''embeds'', JArr [])]\<rparr>"
  by (simp add: storedConnection_def findQuery_def ex_world_def ex_feed_def)

theorem C5_absent_fields_witness:
  "updateDiscordChannelConnection ex_env ''5e6b5f0f7b1c8a1f7b3a0a01'' ''62f1a0c4d3b2a1908f7e6d01'' ''admin'' ex_patch ''guild-1'' ex_world
     = (Inr ex_updated,
        \<lparr>feeds = [ex_feed\<lparr>discordChannels := [ex_updated]\<rparr>], calls = [FindOneAndUpdate ''5e6b5f0f7b1c8a1f7b3a0a01'']\<rparr>)
   \<and> map_of (cc_details ex_updated) ''channel'' = Some (JObj [(''id'', JStr ''chan-1'')])
   \<and> cc_filters ex_updated = Some (JObj [(''expression'', JObj [])])
   \<and> cc_name ex_updated = ''renamed''
   \<and> map_of (cc_details ex_updated) ''content'' = Some (JStr ''hello'')
   \<and> fst ` set (updateQuery ex_patch)
       = {''connections.discordChannels.$.details.content'', ''connections.discordChannels.$.name''}
   \<and> updateDiscordChannelConnection ex_env ''5e6b5f0f7b1c8a1f7b3a0a01'' ''62f1a0c4d3b2a1908f7e6d01'' ''admin'' ex_undefined_patch ''guild-1'' ex_world
     = (Inr ex_stripped,
        \<lparr>feeds = [ex_feed\<lparr>discordChannels := [ex_stripped]\<rparr>], calls = [FindOneAndUpdate ''5e6b5f0f7b1c8a1f7b3a0a01'']\<rparr>)
   \<and> fst ` set (updateQuery ex_undefined_patch)
       = {''connections.discordChannels.$.details.channel'', ''connections.discordChannels.$.details.content''}
   \<and> map_of (cc_details ex_stripped) ''channel'' = Some (JObj [(''id'', JStr ''chan-1'')])
   \<and> map_of (cc_details ex_stripped) ''content'' = Some (JStr ''c'')
   \<and> updateDiscordChannelConnection ex_env_null ''5e6b5f0f7b1c8a1f7b3a0a01'' ''62f1a0c4d3b2a1908f7e6d01'' ''admin'' ex_undefined_patch ''guild-1'' ex_world
     = (Inr ex_nulled,
        \<lparr>feeds = [ex_feed\<lparr>discordChannels := [ex_nulled]\<rparr>], calls = [FindOneAndUpdate ''5e6b5f0f7b1c8a1f7b3a0a01'']\<rparr>)
   \<and> map_of (cc_details ex_nulled) ''channel'' = Some JNull"
proof -
  note a = C5_absent_fields_unchanged [OF ex_update_result,
      where k = "''channel''" and c' = ex_updated and v = JNull and n = "''renamed''"
        and d = "[]" and x = JNull]
  note b = C5_absent_fields_unchanged [OF ex_update_result,
      where k = "''content''" and c' = ex_updated and v = JNull and n = "''renamed''"
        and d = "[(''content'', JStr ''hello'')]" and x = "JStr ''hello''"]
  note c = C5_absent_fields_unchanged [OF ex_undefined_stripped,
      where k = "''channel''" and c' = ex_stripped and v = JNull and n = "[]"
        and d = "[(''channel'', JUndefined), (''content'', JStr ''c'')]" and x = JUndefined]
  note d = C5_absent_fields_unchanged [OF ex_undefined_stripped,
      where k = "''content''" and c' = ex_stripped and v = JNull and n = "[]"
        and d = "[(''channel'', JUndefined), (''content'', JStr ''c'')]" and x = "JStr ''c''"]
  note e = C5_absent_fields_unchanged [OF ex_undefined_nulled,
      where k = "''channel''" and c' = ex_nulled and v = JNull and n = "[]"
        and d = "[(''channel'', JUndefined), (''content'', JStr ''c'')]" and x = JUndefined]
  have 1: "map_of (cc_details ex_updated) ''channel'' = Some (JObj [(''id'', JStr ''chan-1'')])"
    using a by (simp add: ex_stored absentKept_def patchKeys_def ex_patch_def)
  have 2: "cc_filters ex_updated = Some (JObj [(''expression'', JObj [])])"
    using a by (simp add: ex_stored absentKept_def ex_patch_def)
  have 3: "cc_name ex_updated = ''renamed''"
    using a by (simp add: ex_patch_def)
  have 4: "map_of (cc_details ex_updated) ''content'' = Some (JStr ''hello'')"
    using b by (simp add: ex_stored distinctKeys_def ex_patch_def)
  have 5: "fst ` set (updateQuery ex_patch)
       = {''connections.discordChannels.$.details.content'', ''connections.discordChannels.$.name''}"
    using a by (auto simp: patchKeys_def ex_patch_def detailsPath_def namePath_def channelsPath_def)
  have 6: "fst ` set (updateQuery ex_undefined_patch)
       = {''connections.discordChannels.$.details.channel'', ''connections.discordChannels.$.details.content''}"
    using c by (auto simp: patchKeys_def ex_undefined_patch_def detailsPath_def channelsPath_def)
  have 7: "map_of (cc_details ex_stripped) ''channel'' = Some (JObj [(''id'', JStr ''chan-1'')])"
    using c by (simp add: ex_stored distinctKeys_def ex_undefined_patch_def ex_env_def)
  have 8: "map_of (cc_details ex_stripped) ''content'' = Some (JStr ''c'')"
    using d by (simp add: ex_stored distinctKeys_def ex_undefined_patch_def)
  have 9: "map_of (cc_details ex_nulled) ''channel'' = Some JNull"
    using e by (simp add: ex_stored distinctKeys_def ex_undefined_patch_def ex_env_null_def ex_env_def)
  show ?thesis
    using 1 2 3 4 5 6 7 8 9 ex_update_result ex_undefined_stripped ex_undefined_nulled
    by blast
qed

lemma feedKept_names:
  "list_all2 (feedKept u k) fs fs' \<Longrightarrow> u_name u = None \<Longrightarrow>
   map (\<lambda>f. map cc_name (discordChannels f)) fs' = map (\<lambda>f. map cc_name (discordChannels f)) fs"
proof (induction rule: list_all2_induct)
  case Nil
  then show ?case by simp
next
  case (Cons f fs f' fs')
  from Cons.hyps(1) Cons.prems
  have "list_all2 (\<lambda>c c'. cc_name c' = cc_name c) (discordChannels f) (discordChannels f')"
    by (auto simp: feedKept_def absentKept_def elim!: list_all2_mono)
  then have "map cc_name (discordChannels f') = map cc_name (discordChannels f)"
    by (induction rule: list_all2_induct) auto
  with Cons show ?case by simp
qed

lemma feedKept_filters:
  "list_all2 (feedKept u k) fs fs' \<Longrightarrow> u_filters u = None \<Longrightarrow>
   map (\<lambda>f. map cc_filters (discordChannels f)) fs' = map (\<lambda>f. map cc_filters (discordChannels f)) fs"
proof (induction rule: list_all2_induct)
  case Nil
  then show ?case by simp
next
  case (Cons f fs f' fs')
  from Cons.hyps(1) Cons.prems
  have "list_all2 (\<lambda>c c'. cc_filters c' = cc_filters c) (discordChannels f) (discordChannels f')"
    by (auto simp: feedKept_def absentKept_def elim!: list_all2_mono)
  then have "map cc_filters (discordChannels f') = map cc_filters (discordChannels f)"
    by (induction rule: list_all2_induct) auto
  with Cons show ?case by simp
qed

lemma updateQuery_empty_name:
  "u_name u = Some [] \<Longrightarrow> updateQuery u = updateQuery (u\<lparr>u_name := None\<rparr>)"
  by (simp add: updateQuery_def setRecordDetails_def)

lemma updateQuery_falsy_filters:
  "u_filters u = Some v \<Longrightarrow> \<not> truthy v \<Longrightarrow> updateQuery u = updateQuery (u\<lparr>u_filters := None\<rparr>)"
  by (simp add: updateQuery_def setRecordDetails_def)

lemma persist_depends:
  "updateQuery u = updateQuery u' \<Longrightarrow> persistUpdate env feedId cid u = persistUpdate env feedId cid u'"
  by (rule ext) (simp add: persistUpdate_def)

lemma update_depends:
  "updateQuery u = updateQuery u' \<Longrightarrow> u_details u = u_details u' \<Longrightarrow>
   updateDiscordChannelConnection env feedId cid tok u guildId w
     = updateDiscordChannelConnection env feedId cid tok u' guildId w"
  using persist_depends [of u u' env feedId cid]
  by (simp add: update_cases carriesChannel_def patchChannelId_def detailsChannel_def
      split: sum.splits)

text \<open>
  Claim C10. An empty string as \<open>updates.name\<close> and a falsy value as \<open>updates.filters\<close>
  leave no entry in the \<open>$set\<close> document; the call does what the call without the field
  does, and the stored names, respectively filters, of all connections are those before
  the call.
\<close>

theorem C10_falsy_values_are_absent:
  "(u_name u = Some [] \<longrightarrow>
      namePath \<notin> fst ` set (updateQuery u)
      \<and> updateDiscordChannelConnection env feedId cid tok u guildId w
          = updateDiscordChannelConnection env feedId cid tok (u\<lparr>u_name := None\<rparr>) guildId w
      \<and> storedNames (snd (updateDiscordChannelConnection env feedId cid tok u guildId w))
          = storedNames w)
   \<and> (u_filters u = Some v \<and> \<not> truthy v \<longrightarrow>
      filtersPath \<notin> fst ` set (updateQuery u)
      \<and> updateDiscordChannelConnection env feedId cid tok u guildId w
          = updateDiscordChannelConnection env feedId cid tok (u\<lparr>u_filters := None\<rparr>) guildId w
      \<and> storedFilters (snd (updateDiscordChannelConnection env feedId cid tok u guildId w))
          = storedFilters w)"
proof (intro conjI impI)
  assume n: "u_name u = Some []"
  show "namePath \<notin> fst ` set (updateQuery u)"
    using n by (simp add: updateQuery_paths detailsPath_def namePath_def paths_differ
        split: option.splits) (auto simp: filtersPath_def)
  show eq: "updateDiscordChannelConnection env feedId cid tok u guildId w
          = updateDiscordChannelConnection env feedId cid tok (u\<lparr>u_name := None\<rparr>) guildId w"
    by (rule update_depends) (simp_all add: updateQuery_empty_name n)
  show "storedNames (snd (updateDiscordChannelConnection env feedId cid tok u guildId w))
          = storedNames w"
    unfolding eq storedNames_def
    by (rule feedKept_names [OF update_frame [of _ "[]"]]) simp
next
  assume f: "u_filters u = Some v \<and> \<not> truthy v"
  show "filtersPath \<notin> fst ` set (updateQuery u)"
    using f by (simp add: updateQuery_paths detailsPath_def filtersPath_def paths_differ
        split: option.splits) (auto simp: namePath_def)
  show eq: "updateDiscordChannelConnection env feedId cid tok u guildId w
          = updateDiscordChannelConnection env feedId cid tok (u\<lparr>u_filters := None\<rparr>) guildId w"
    by (rule update_depends) (simp_all add: updateQuery_falsy_filters f)
  show "storedFilters (snd (updateDiscordChannelConnection env feedId cid tok u guildId w))
          = storedFilters w"
    unfolding eq storedFilters_def
    by (rule feedKept_filters [OF update_frame [of _ "[]"]]) simp
qed

theorem C10_falsy_values_witness:
  "updateQuery ex_falsy_patch = []
   \<and> updateDiscordChannelConnection ex_env ''5e6b5f0f7b1c8a1f7b3a0a01'' ''62f1a0c4d3b2a1908f7e6d01'' ''admin'' ex_falsy_patch ''guild-1'' ex_world
       = updateDiscordChannelConnection ex_env ''5e6b5f0f7b1c8a1f7b3a0a01'' ''62f1a0c4d3b2a1908f7e6d01'' ''admin''
           \<lparr>u_filters = None, u_name = None, u_details = None\<rparr> ''guild-1'' ex_world
   \<and> storedNames (snd (updateDiscordChannelConnection ex_env ''5e6b5f0f7b1c8a1f7b3a0a01'' ''62f1a0c4d3b2a1908f7e6d01'' ''admin''
         ex_falsy_patch ''guild-1'' ex_world)) = [[''first'']]
   \<and> storedFilters (snd (updateDiscordChannelConnection ex_env ''5e6b5f0f7b1c8a1f7b3a0a01'' ''62f1a0c4d3b2a1908f7e6d01'' ''admin''
         ex_falsy_patch ''guild-1'' ex_world)) = [[Some (JObj [(''expression'', JObj [])])]]"
proof -
  have n: "u_name ex_falsy_patch = Some []"
    and f: "u_filters ex_falsy_patch = Some JNull \<and> \<not> truthy JNull"
    and f': "u_filters (ex_falsy_patch\<lparr>u_name := None\<rparr>) = Some JNull \<and> \<not> truthy JNull"
    and p: "ex_falsy_patch\<lparr>u_name := None, u_filters := None\<rparr>
              = \<lparr>u_filters = None, u_name = None, u_details = None\<rparr>"
    by (simp_all add: ex_falsy_patch_def)
  note a = C10_falsy_values_are_absent [where u = ex_falsy_patch and v = JNull and env = ex_env and feedId = "''5e6b5f0f7b1c8a1f7b3a0a01''"
                  and cid = "''62f1a0c4d3b2a1908f7e6d01''" and tok = "''admin''" and guildId = "''guild-1''"
                  and w = ex_world]
  note b = C10_falsy_values_are_absent [where u = "ex_falsy_patch\<lparr>u_name := None\<rparr>" and v = JNull and env = ex_env
                  and feedId = "''5e6b5f0f7b1c8a1f7b3a0a01''" and cid = "''62f1a0c4d3b2a1908f7e6d01''" and tok = "''admin''"
                  and guildId = "''guild-1''" and w = ex_world]
  have q: "updateQuery ex_falsy_patch = []"
    by (simp add: updateQuery_def setRecordDetails_def ex_falsy_patch_def)
  have e: "updateDiscordChannelConnection ex_env ''5e6b5f0f7b1c8a1f7b3a0a01'' ''62f1a0c4d3b2a1908f7e6d01'' ''admin'' ex_falsy_patch ''guild-1'' ex_world
       = updateDiscordChannelConnection ex_env ''5e6b5f0f7b1c8a1f7b3a0a01'' ''62f1a0c4d3b2a1908f7e6d01'' ''admin''
           \<lparr>u_filters = None, u_name = None, u_details = None\<rparr> ''guild-1'' ex_world"
    using a n b f' p by simp
  have sn: "storedNames ex_world = [[''first'']]"
    and sf: "storedFilters ex_world = [[Some (JObj [(''expression'', JObj [])])]]"
    by (simp_all add: storedNames_def storedFilters_def ex_world_def ex_feed_def)
  have "storedNames (snd (updateDiscordChannelConnection ex_env ''5e6b5f0f7b1c8a1f7b3a0a01'' ''62f1a0c4d3b2a1908f7e6d01'' ''admin''
         ex_falsy_patch ''guild-1'' ex_world)) = storedNames ex_world"
    using a n by blast
  moreover have "storedFilters (snd (updateDiscordChannelConnection ex_env ''5e6b5f0f7b1c8a1f7b3a0a01'' ''62f1a0c4d3b2a1908f7e6d01'' ''admin''
         ex_falsy_patch ''guild-1'' ex_world)) = storedFilters ex_world"
    using a f by blast
  ultimately show ?thesis
    using q e sn sf by simp
qed





subsection \<open>The destination invariant\<close>










lemma create_feeds:
  "feeds (snd (createDiscordChannelConnection env newId feedId name channelId tok guildId w))
     = (case canUseChannel env (Some (JStr channelId)) tok of
          Inl err \<Rightarrow> feeds w
        | Inr channel \<Rightarrow>
            if ch_guild_id channel \<noteq> guildId \<or> \<not> castsToObjectId env feedId then feeds w
            else snd (findOneAndUpdate (\<lambda>f. feed_oid f = feedId)
                  (\<lambda>f. f\<lparr>discordChannels := discordChannels f @
                     [\<lparr>cc_id = newId, cc_name = name, cc_filters = None,
                       cc_details = [(''type'', discordChannelType env),
                                     (''channel'', JObj [(''id'', JStr channelId)]),
                                     (''embeds'', JArr [])]\<rparr>]\<rparr>)
                  (feeds w)))"
  by (auto simp: createDiscordChannelConnection_def assertDiscordChannelCanBeUsed_def called_def
      split: sum.splits prod.splits option.splits)







subsection \<open>Idempotence and round trip\<close>

lemma fold_noop: "(\<And>e. e \<in> set es \<Longrightarrow> f e x = x) \<Longrightarrow> fold f es x = x"
  by (induction es) auto

lemma applySetEntry_noop:
  assumes "distinct (map fst sets)" and "(p, v) \<in> set sets"
  shows "applySetEntry (p, v) (applySet sets c) = applySet sets c"
proof -
  have m: "map_of sets p = Some v"
    using assms by simp
  show ?thesis
  proof (cases "stripPrefix channelsPath p")
    case None
    then show ?thesis by (simp add: applySetEntry_def)
  next
    case (Some field)
    then have p: "p = channelsPath @ field"
      by (rule stripPrefix_Some)
    show ?thesis
    proof (cases "stripPrefix ''details.'' field")
      case (Some key)
      then have "field = ''details.'' @ key"
        by (rule stripPrefix_Some)
      with p have "p = detailsPath key"
        by (simp add: detailsPath_def)
      with m have "map_of (cc_details (applySet sets c)) key = Some v"
        using applySet_details_written [OF assms(1), of c key] by simp
      then have "AList.update key v (cc_details (applySet sets c)) = cc_details (applySet sets c)"
        by (rule update_triv)
      with Some \<open>stripPrefix channelsPath p = Some field\<close> show ?thesis
        by (simp add: applySetEntry_def)
    next
      case None
      show ?thesis
      proof (cases "field = ''filters''")
        case True
        with p m have "cc_filters (applySet sets c) = Some v"
          using applySet_filters_written [OF assms(1), of c] by (simp add: filtersPath_def)
        with True None \<open>stripPrefix channelsPath p = Some field\<close> show ?thesis
          by (simp add: applySetEntry_def)
      next
        case False
        show ?thesis
        proof (cases "field = ''name''")
          case n: True
          show ?thesis
          proof (cases v)
            case (JStr s)
            with n p m have "cc_name (applySet sets c) = s"
              using applySet_name_written [OF assms(1), of s c] by (simp add: namePath_def)
            with n JStr None \<open>stripPrefix channelsPath p = Some field\<close> show ?thesis
              by (simp add: applySetEntry_def)
          qed (use n None \<open>stripPrefix channelsPath p = Some field\<close> in
                \<open>simp_all add: applySetEntry_def\<close>)
        next
          case f: False
          with False None \<open>stripPrefix channelsPath p = Some field\<close> show ?thesis
            by (simp add: applySetEntry_def)
        qed
      qed
    qed
  qed
qed

lemma applySet_idem:
  "distinct (map fst sets) \<Longrightarrow> applySet sets (applySet sets c) = applySet sets c"
  unfolding applySet_def [of sets "applySet sets c"]
  by (rule fold_noop) (auto simp: applySetEntry_noop)

lemma setPositional_idem:
  "distinct (map fst sets) \<Longrightarrow>
   setPositional cid sets (setPositional cid sets cs) = setPositional cid sets cs"
  by (induction cs) (auto simp: applySet_id applySet_idem)

lemma list_ex_setPositional:
  "list_ex (\<lambda>c. cc_id c = cid) (setPositional cid sets cs) = list_ex (\<lambda>c. cc_id c = cid) cs"
  by (induction cs) (auto simp: applySet_id)

lemma findOneAndUpdate_idem:
  "(\<And>f. q f \<Longrightarrow> q (upd f) \<and> upd (upd f) = upd f) \<Longrightarrow>
   findOneAndUpdate q upd (snd (findOneAndUpdate q upd fs)) = findOneAndUpdate q upd fs"
  by (induction fs) (auto split: prod.splits)


lemma findQuery_upd:
  "findQuery feedId cid f \<Longrightarrow>
   findQuery feedId cid (f\<lparr>discordChannels := setPositional cid sets (discordChannels f)\<rparr>)"
  by (simp add: findQuery_def list_ex_setPositional)

lemma persistUpdate_of_feeds:
  "feeds w' = feeds w \<Longrightarrow>
   fst (persistUpdate env feedId cid u w') = fst (persistUpdate env feedId cid u w)
   \<and> feeds (snd (persistUpdate env feedId cid u w')) = feeds (snd (persistUpdate env feedId cid u w))"
  by (auto simp: persistUpdate_def called_def split: prod.splits option.splits)

lemma persistUpdate_by_result:
  "castsToObjectId env feedId \<Longrightarrow> castsToObjectId env cid \<Longrightarrow>
   findOneAndUpdate (findQuery feedId cid)
     (\<lambda>f. f\<lparr>discordChannels := setPositional cid (castSet env (updateQuery u)) (discordChannels f)\<rparr>)
     (feeds w) = (r, fs) \<Longrightarrow>
   fst (persistUpdate env feedId cid u w)
     = (case (case r of None \<Rightarrow> None
              | Some f \<Rightarrow> find (\<lambda>connection. cc_id connection = cid) (discordChannels f)) of
          None \<Rightarrow> Inl (Error ''Connection was not successfuly updated. Check insertion statement and schemas are correct.'')
        | Some c \<Rightarrow> Inr c)
   \<and> feeds (snd (persistUpdate env feedId cid u w)) = fs"
  by (simp add: persistUpdate_def called_def split: option.splits)

lemma persistUpdate_twice:
  "fst (persistUpdate env feedId cid u (snd (persistUpdate env feedId cid u w)))
     = fst (persistUpdate env feedId cid u w)
   \<and> feeds (snd (persistUpdate env feedId cid u (snd (persistUpdate env feedId cid u w))))
     = feeds (snd (persistUpdate env feedId cid u w))"
proof (cases "castsToObjectId env feedId \<and> castsToObjectId env cid")
  case False
  then show ?thesis
    by (auto simp: persistUpdate_def called_def)
next
  case True
  then have i: "castsToObjectId env feedId" "castsToObjectId env cid"
    by simp_all
  let ?q = "findQuery feedId cid"
  let ?upd = "\<lambda>f. f\<lparr>discordChannels := setPositional cid (castSet env (updateQuery u)) (discordChannels f)\<rparr>"
  let ?w2 = "snd (persistUpdate env feedId cid u w)"
  obtain r fs where r: "findOneAndUpdate ?q ?upd (feeds w) = (r, fs)"
    by (cases "findOneAndUpdate ?q ?upd (feeds w)")
  have "findOneAndUpdate ?q ?upd (snd (findOneAndUpdate ?q ?upd (feeds w)))
          = findOneAndUpdate ?q ?upd (feeds w)"
    by (rule findOneAndUpdate_idem)
       (simp add: findQuery_upd setPositional_idem [OF castSet_distinct [OF updateQuery_distinct]])
  with r have r2: "findOneAndUpdate ?q ?upd fs = (r, fs)"
    by simp
  note one = persistUpdate_by_result [OF i r]
  then have "feeds ?w2 = fs" by simp
  with r2 have "findOneAndUpdate ?q ?upd (feeds ?w2) = (r, fs)" by simp
  note two = persistUpdate_by_result [OF i this]
  from one two show ?thesis by simp
qed

text \<open>
  Applying a patch twice. A second call of \<open>updateDiscordChannelConnection\<close> with the
  arguments of the first returns what the first returned and leaves the feeds as the
  first left them: the field merge is idempotent.
\<close>

theorem update_twice_is_update_once:
  "fst (updateDiscordChannelConnection env feedId cid tok u guildId
          (snd (updateDiscordChannelConnection env feedId cid tok u guildId w)))
     = fst (updateDiscordChannelConnection env feedId cid tok u guildId w)
   \<and> feeds (snd (updateDiscordChannelConnection env feedId cid tok u guildId
          (snd (updateDiscordChannelConnection env feedId cid tok u guildId w))))
     = feeds (snd (updateDiscordChannelConnection env feedId cid tok u guildId w))"
proof (cases "carriesChannel u")
  case False
  then show ?thesis
    using persistUpdate_twice [of env feedId cid u w] by (simp add: update_cases)
next
  case True
  let ?w1 = "called (CanUseChannel (patchChannelId u) tok) w"
  show ?thesis
  proof (cases "canUseChannel env (patchChannelId u) tok")
    case (Inl err)
    with True show ?thesis by (simp add: update_cases called_feeds)
  next
    case (Inr channel)
    show ?thesis
    proof (cases "ch_guild_id channel = guildId")
      case False
      with True Inr show ?thesis by (simp add: update_cases called_feeds)
    next
      case g: True
      let ?w2 = "snd (persistUpdate env feedId cid u ?w1)"
      have "feeds (called (CanUseChannel (patchChannelId u) tok) ?w2) = feeds ?w2"
        by (rule called_feeds)
      from persistUpdate_of_feeds [OF this, of env feedId cid u] persistUpdate_twice [of env feedId cid u ?w1]
      have "fst (persistUpdate env feedId cid u (called (CanUseChannel (patchChannelId u) tok) ?w2))
              = fst (persistUpdate env feedId cid u ?w1)
            \<and> feeds (snd (persistUpdate env feedId cid u (called (CanUseChannel (patchChannelId u) tok) ?w2)))
              = feeds ?w2"
        by simp
      with True Inr g show ?thesis
        by (simp add: update_cases)
    qed
  qed
qed


lemma find_append_fresh:
  "\<not> list_ex P xs \<Longrightarrow> P x \<Longrightarrow> find P (xs @ [x]) = Some x"
  by (induction xs) auto

lemma find_after_push:
  "find (\<lambda>f. feed_oid f = i) fs = Some f \<Longrightarrow> (\<And>f. feed_oid (upd f) = feed_oid f) \<Longrightarrow>
   findOneAndUpdate (\<lambda>f. feed_oid f = i) upd fs = (r, fs') \<Longrightarrow>
   r = Some (upd f) \<and> find (\<lambda>f. feed_oid f = i) fs' = Some (upd f)"
  by (induction fs arbitrary: r fs') (auto split: prod.splits if_splits)

lemma create_by_result:
  "canUseChannel env (Some (JStr channelId)) tok = Inr channel \<Longrightarrow>
   ch_guild_id channel = guildId \<Longrightarrow>
   castsToObjectId env feedId \<Longrightarrow>
   findOneAndUpdate (\<lambda>f. feed_oid f = feedId)
     (\<lambda>f. f\<lparr>discordChannels := discordChannels f @
        [\<lparr>cc_id = newId, cc_name = name, cc_filters = None,
          cc_details = [(''type'', discordChannelType env),
                        (''channel'', JObj [(''id'', JStr channelId)]),
                        (''embeds'', JArr [])]\<rparr>]\<rparr>)
     (feeds w) = (r, fs) \<Longrightarrow>
   fst (createDiscordChannelConnection env newId feedId name channelId tok guildId w)
     = (case (case r of None \<Rightarrow> None
              | Some f \<Rightarrow> find (\<lambda>connection. cc_id connection = newId) (discordChannels f)) of
          None \<Rightarrow> Inl (Error ''Connection was not successfuly created. Check insertion statement and schemas are correct.'')
        | Some c \<Rightarrow> Inr c)
   \<and> feeds (snd (createDiscordChannelConnection env newId feedId name channelId tok guildId w)) = fs"
  by (simp add: createDiscordChannelConnection_def assertDiscordChannelCanBeUsed_def called_def
      split: option.splits)

text \<open>
  Round trip of a creation. When the verification passes, a feed with the given id is
  stored under an id that casts and the generated id is new in it,
  \<open>createDiscordChannelConnection\<close> returns the connection with the given name, the given
  channel id and an empty embed list, and the stored feed then ends with this connection.
\<close>

theorem created_connection_is_stored:
  assumes "canUseChannel env (Some (JStr channelId)) tok = Inr channel"
    and "ch_guild_id channel = guildId"
    and "find (\<lambda>f. feed_oid f = feedId) (feeds w) = Some f"
    and "\<not> list_ex (\<lambda>c. cc_id c = newId) (discordChannels f)"
    and "castsToObjectId env feedId"
  shows "fst (createDiscordChannelConnection env newId feedId name channelId tok guildId w)
           = Inr \<lparr>cc_id = newId, cc_name = name, cc_filters = None,
                  cc_details = [(''type'', discordChannelType env),
                                (''channel'', JObj [(''id'', JStr channelId)]),
                                (''embeds'', JArr [])]\<rparr>
         \<and> find (\<lambda>f. feed_oid f = feedId)
             (feeds (snd (createDiscordChannelConnection env newId feedId name channelId tok guildId w)))
           = Some (f\<lparr>discordChannels := discordChannels f @
                     [\<lparr>cc_id = newId, cc_name = name, cc_filters = None,
                       cc_details = [(''type'', discordChannelType env),
                                     (''channel'', JObj [(''id'', JStr channelId)]),
                                     (''embeds'', JArr [])]\<rparr>]\<rparr>)"
proof -
  let ?new = "\<lparr>cc_id = newId, cc_name = name, cc_filters = None,
                cc_details = [(''type'', discordChannelType env),
                              (''channel'', JObj [(''id'', JStr channelId)]),
                              (''embeds'', JArr [])]\<rparr>"
  let ?upd = "\<lambda>f. f\<lparr>discordChannels := discordChannels f @ [?new]\<rparr>"
  obtain r fs where r: "findOneAndUpdate (\<lambda>f. feed_oid f = feedId) ?upd (feeds w) = (r, fs)"
    by (cases "findOneAndUpdate (\<lambda>f. feed_oid f = feedId) ?upd (feeds w)")
  have p: "r = Some (?upd f) \<and> find (\<lambda>f. feed_oid f = feedId) fs = Some (?upd f)"
    by (rule find_after_push [OF assms(3) _ r]) simp
  have n: "find (\<lambda>c. cc_id c = newId) (discordChannels f @ [?new]) = Some ?new"
    by (rule find_append_fresh [OF assms(4)]) simp
  note c = create_by_result [OF assms(1,2,5) r]
  from c p n show ?thesis
    by simp
qed

theorem created_connection_witness:
  "fst (createDiscordChannelConnection ex_env ''62f1a0c4d3b2a1908f7e6d02'' ''5e6b5f0f7b1c8a1f7b3a0a01'' ''second'' ''chan-1'' ''admin''
          ''guild-1'' ex_world)
     = Inr \<lparr>cc_id = ''62f1a0c4d3b2a1908f7e6d02'', cc_name = ''second'', cc_filters = None,
            cc_details = [(''type'', JStr ''DISCORD_CHANNEL''),
                          (''channel'', JObj [(''id'', JStr ''chan-1'')]),
                          (''embeds'', JArr [])]\<rparr>
   \<and> map (\<lambda>f. map cc_id (discordChannels f))
        (feeds (snd (createDiscordChannelConnection ex_env ''62f1a0c4d3b2a1908f7e6d02'' ''5e6b5f0f7b1c8a1f7b3a0a01'' ''second''
           ''chan-1'' ''admin'' ''guild-1'' ex_world)))
     = [[''62f1a0c4d3b2a1908f7e6d01'', ''62f1a0c4d3b2a1908f7e6d02'']]"
proof -
  have a: "canUseChannel ex_env (Some (JStr ''chan-1'')) ''admin''
             = Inr \<lparr>ch_id = ''chan-1'', ch_guild_id = ''guild-1''\<rparr>"
    and b: "ch_guild_id \<lparr>ch_id = ''chan-1'', ch_guild_id = ''guild-1''\<rparr> = ''guild-1''"
    and c: "find (\<lambda>f. feed_oid f = ''5e6b5f0f7b1c8a1f7b3a0a01'') (feeds ex_world) = Some ex_feed"
    and d: "\<not> list_ex (\<lambda>c. cc_id c = ''62f1a0c4d3b2a1908f7e6d02'') (discordChannels ex_feed)"
    and t: "discordChannelType ex_env = JStr ''DISCORD_CHANNEL''"
    and i: "castsToObjectId ex_env ''5e6b5f0f7b1c8a1f7b3a0a01''"
    by (simp_all add: ex_env_def ex_world_def ex_feed_def isObjectIdString_def)
  note r = created_connection_is_stored [OF a b c d i, of "''second''"]
  have 1: "fst (createDiscordChannelConnection ex_env ''62f1a0c4d3b2a1908f7e6d02'' ''5e6b5f0f7b1c8a1f7b3a0a01'' ''second'' ''chan-1''
                 ''admin'' ''guild-1'' ex_world)
     = Inr \<lparr>cc_id = ''62f1a0c4d3b2a1908f7e6d02'', cc_name = ''second'', cc_filters = None,
            cc_details = [(''type'', JStr ''DISCORD_CHANNEL''),
                          (''channel'', JObj [(''id'', JStr ''chan-1'')]),
                          (''embeds'', JArr [])]\<rparr>"
    using r t by simp
  have "feeds (snd (createDiscordChannelConnection ex_env ''62f1a0c4d3b2a1908f7e6d02'' ''5e6b5f0f7b1c8a1f7b3a0a01'' ''second''
           ''chan-1'' ''admin'' ''guild-1'' ex_world))
          = snd (findOneAndUpdate (\<lambda>f. feed_oid f = ''5e6b5f0f7b1c8a1f7b3a0a01'')
                  (\<lambda>f. f\<lparr>discordChannels := discordChannels f @
                     [\<lparr>cc_id = ''62f1a0c4d3b2a1908f7e6d02'', cc_name = ''second'', cc_filters = None,
                       cc_details = [(''type'', discordChannelType ex_env),
                                     (''channel'', JObj [(''id'', JStr ''chan-1'')]),
                                     (''embeds'', JArr [])]\<rparr>]\<rparr>)
                  (feeds ex_world))"
    using a b i by (simp add: create_feeds)
  then have 2: "map (\<lambda>f. map cc_id (discordChannels f))
        (feeds (snd (createDiscordChannelConnection ex_env ''62f1a0c4d3b2a1908f7e6d02'' ''5e6b5f0f7b1c8a1f7b3a0a01'' ''second''
           ''chan-1'' ''admin'' ''guild-1'' ex_world)))
     = [[''62f1a0c4d3b2a1908f7e6d01'', ''62f1a0c4d3b2a1908f7e6d02'']]"
    by (simp add: ex_world_def ex_feed_def)
  from 1 2 show ?thesis by blast
qed

section \<open>Properties of the feed service\<close>








lemma find_after_update:
  "(\<And>f. feed_oid (upd f) = feed_oid f) \<Longrightarrow>
   find (\<lambda>f. feed_oid f = i) (snd (findOneAndUpdate (\<lambda>f. feed_oid f = i) upd fs))
     = map_option upd (find (\<lambda>f. feed_oid f = i) fs)"
  by (induction fs) (auto split: prod.splits)

lemma mergeFeed_oid: "feed_oid (mergeFeed p f) = feed_oid f"
  by (simp add: mergeFeed_def)

text \<open>
  Claim C7. \<open>updateOne\<close> on an id no document has returns \<open>undefined\<close> and changes
  nothing; on an id a document has it returns the merged document, which is then the stored
  one. The merged document has the text of the patch when the patch defines one and the
  stored text otherwise; it has no webhook object when the webhook id of the patch is the
  empty string, and the stored webhook object when the patch has no webhook field or no
  webhook id.
\<close>

theorem C7_updateOne_merge:
  "(\<not> list_ex (\<lambda>f. feed_oid f = feedId) fs \<longrightarrow> updateOne fs feedId p = (None, fs))
   \<and> (find (\<lambda>f. feed_oid f = feedId) fs = Some f \<longrightarrow>
        fst (updateOne fs feedId p) = Some (mergeFeed p f)
        \<and> find (\<lambda>f. feed_oid f = feedId) (snd (updateOne fs feedId p)) = Some (mergeFeed p f))
   \<and> (uf_text p = Some t \<longrightarrow> feed_text (mergeFeed p f) = t)
   \<and> (uf_text p = None \<longrightarrow> feed_text (mergeFeed p f) = feed_text f)
   \<and> (uf_webhook p = Some \<lparr>wp_id = Some []\<rparr> \<longrightarrow> feed_webhook (mergeFeed p f) = None)
   \<and> (uf_webhook p = None \<longrightarrow> feed_webhook (mergeFeed p f) = feed_webhook f)
   \<and> (uf_webhook p = Some \<lparr>wp_id = None\<rparr> \<longrightarrow> feed_webhook (mergeFeed p f) = feed_webhook f)"
proof (intro conjI impI)
  assume "\<not> list_ex (\<lambda>f. feed_oid f = feedId) fs"
  then show "updateOne fs feedId p = (None, fs)"
    by (simp add: updateOne_def findOneAndUpdate_none)
next
  assume f: "find (\<lambda>f. feed_oid f = feedId) fs = Some f"
  then show "fst (updateOne fs feedId p) = Some (mergeFeed p f)"
    by (simp add: updateOne_def findOneAndUpdate_fst)
  from f show "find (\<lambda>f. feed_oid f = feedId) (snd (updateOne fs feedId p)) = Some (mergeFeed p f)"
    by (simp add: updateOne_def find_after_update mergeFeed_oid)
qed (simp_all add: mergeFeed_def)

theorem C7_updateOne_witness:
  "updateOne [ex_hooked] ''5e6b5f0f7b1c8a1f7b3a0a00'' \<lparr>uf_text = Some ''hello'', uf_webhook = None\<rparr> = (None, [ex_hooked])
   \<and> fst (updateOne [ex_hooked] ''5e6b5f0f7b1c8a1f7b3a0a01'' \<lparr>uf_text = None, uf_webhook = Some \<lparr>wp_id = Some []\<rparr>\<rparr>)
       = Some (ex_feed\<lparr>feed_webhook := None\<rparr>)
   \<and> fst (updateOne [ex_hooked] ''5e6b5f0f7b1c8a1f7b3a0a01'' \<lparr>uf_text = Some ''my-new-text'', uf_webhook = None\<rparr>)
       = Some (ex_hooked\<lparr>feed_text := ''my-new-text''\<rparr>)"
proof -
  have n: "\<not> list_ex (\<lambda>f. feed_oid f = ''5e6b5f0f7b1c8a1f7b3a0a00'') [ex_hooked]"
    and f: "find (\<lambda>f. feed_oid f = ''5e6b5f0f7b1c8a1f7b3a0a01'') [ex_hooked] = Some ex_hooked"
    by (simp_all add: ex_hooked_def ex_feed_def)
  note t0 = C7_updateOne_merge [where fs = "[ex_hooked]" and feedId = "''5e6b5f0f7b1c8a1f7b3a0a00''"
      and p = "\<lparr>uf_text = Some ''hello'', uf_webhook = None\<rparr>"]
  note t1 = C7_updateOne_merge [where fs = "[ex_hooked]" and feedId = "''5e6b5f0f7b1c8a1f7b3a0a01''" and f = ex_hooked
      and p = "\<lparr>uf_text = None, uf_webhook = Some \<lparr>wp_id = Some []\<rparr>\<rparr>"]
  note t2 = C7_updateOne_merge [where fs = "[ex_hooked]" and feedId = "''5e6b5f0f7b1c8a1f7b3a0a01''" and f = ex_hooked
      and p = "\<lparr>uf_text = Some ''my-new-text'', uf_webhook = None\<rparr>" and t = "''my-new-text''"]
  have 0: "updateOne [ex_hooked] ''5e6b5f0f7b1c8a1f7b3a0a00'' \<lparr>uf_text = Some ''hello'', uf_webhook = None\<rparr> = (None, [ex_hooked])"
    using t0 n by blast
  have m1: "mergeFeed \<lparr>uf_text = None, uf_webhook = Some \<lparr>wp_id = Some []\<rparr>\<rparr> ex_hooked
              = ex_feed\<lparr>feed_webhook := None\<rparr>"
    using t1 by (simp add: mergeFeed_def ex_hooked_def)
  have m2: "mergeFeed \<lparr>uf_text = Some ''my-new-text'', uf_webhook = None\<rparr> ex_hooked
              = ex_hooked\<lparr>feed_text := ''my-new-text''\<rparr>"
    using t2 by (simp add: mergeFeed_def)
  from t1 f m1 have 1: "fst (updateOne [ex_hooked] ''5e6b5f0f7b1c8a1f7b3a0a01'' \<lparr>uf_text = None, uf_webhook = Some \<lparr>wp_id = Some []\<rparr>\<rparr>)
       = Some (ex_feed\<lparr>feed_webhook := None\<rparr>)"
    by simp
  from t2 f m2 have 2: "fst (updateOne [ex_hooked] ''5e6b5f0f7b1c8a1f7b3a0a01'' \<lparr>uf_text = Some ''my-new-text'', uf_webhook = None\<rparr>)
       = Some (ex_hooked\<lparr>feed_text := ''my-new-text''\<rparr>)"
    by simp
  from 0 1 2 show ?thesis by blast
qed

lemma find_no_list_ex: "\<not> list_ex P xs \<Longrightarrow> find P xs = None"
  by (induction xs) auto

text \<open>
  Claim C8. \<open>refresh\<close> on the id of a stored feed deletes the FailureRecord of its url,
  whatever its age, and returns the feed with status OK; the derived status of the feed is
  OK afterwards at every clock reading and under every decay rule. On an id no feed has it fails and deletes nothing.
  A feed without a FailureRecord is refreshed the same way.
\<close>

theorem C8_refresh_clears_failure:
  "(find (\<lambda>f. feed_oid f = feedId) fs = Some f \<longrightarrow>
      refresh fs failRecords feedId
        = (Inr \<lparr>df_feed = f, df_status = OK, df_failReason = None\<rparr>, failRecords(url f := None))
      \<and> feedStatus d (snd (refresh fs failRecords feedId)) now f = OK)
   \<and> (\<not> list_ex (\<lambda>f. feed_oid f = feedId) fs \<longrightarrow>
      refresh fs failRecords feedId = (Inl NotExists, failRecords))"
  by (auto simp: refresh_def feedStatus_def find_no_list_ex)

theorem C8_refresh_witness:
  "refresh [ex_feed] ex_old ''5e6b5f0f7b1c8a1f7b3a0a01''
     = (Inr \<lparr>df_feed = ex_feed, df_status = OK, df_failReason = None\<rparr>, Map.empty)
   \<and> refresh [ex_feed] ex_recent ''5e6b5f0f7b1c8a1f7b3a0a01''
     = (Inr \<lparr>df_feed = ex_feed, df_status = OK, df_failReason = None\<rparr>, Map.empty)
   \<and> refresh [ex_feed] Map.empty ''5e6b5f0f7b1c8a1f7b3a0a01''
     = (Inr \<lparr>df_feed = ex_feed, df_status = OK, df_failReason = None\<rparr>, Map.empty)
   \<and> refresh [ex_feed] ex_old ''5e6b5f0f7b1c8a1f7b3a0a00'' = (Inl NotExists, ex_old)"
proof -
  have f: "find (\<lambda>f. feed_oid f = ''5e6b5f0f7b1c8a1f7b3a0a01'') [ex_feed] = Some ex_feed"
    and n: "\<not> list_ex (\<lambda>f. feed_oid f = ''5e6b5f0f7b1c8a1f7b3a0a00'') [ex_feed]"
    and u: "url ex_feed = ''https://example.com/feed''"
    by (simp_all add: ex_feed_def)
  have e: "ex_old(url ex_feed := None) = Map.empty" "ex_recent(url ex_feed := None) = Map.empty"
      "Map.empty(url ex_feed := None) = (Map.empty :: failRecords)"
    by (simp_all add: ex_old_def ex_recent_def u)
  show ?thesis
    using C8_refresh_clears_failure [where fs = "[ex_feed]" and feedId = "''5e6b5f0f7b1c8a1f7b3a0a01''" and f = ex_feed and failRecords = ex_old]
      C8_refresh_clears_failure [where fs = "[ex_feed]" and feedId = "''5e6b5f0f7b1c8a1f7b3a0a01''" and f = ex_feed and failRecords = ex_recent]
      C8_refresh_clears_failure [where fs = "[ex_feed]" and feedId = "''5e6b5f0f7b1c8a1f7b3a0a01''" and f = ex_feed and failRecords = Map.empty]
      C8_refresh_clears_failure [where fs = "[ex_feed]" and feedId = "''5e6b5f0f7b1c8a1f7b3a0a00''" and failRecords = ex_old]
      f n e
    by simp
qed

end
